theory Spec2Isabelle
  imports Main
begin

section \<open>Data model\<close>

text \<open>
  Identifiers are UUID strings and instants are milliseconds since the epoch. A
  table is the list of its rows in the order in which the storage layer returns them
  to a query without ORDER BY (an order that SQL leaves to the storage layer): such a
  query returns the matching rows in that order and \<open>const [row] = ...\<close> takes the first
  of them.
  Every service call is modelled as one atomic step on the database: a transaction
  that throws leaves the database as it was.
\<close>

type_synonym uuid = string
type_synonym instant = int

datatype hold_status = HoldActive | HoldConverted | HoldExpired | HoldReleased

datatype booking_status = BookingConfirmed | BookingCanceled | BookingCompleted | BookingNoShow

datatype document_status = DocPending | DocSent | DocSigned | DocExpired | DocRevoked

record meeting_type =
  mt_id :: uuid
  mt_ownerId :: uuid
  mt_slug :: string
  mt_durationMinutes :: int
  mt_bufferBeforeMinutes :: int
  mt_bufferAfterMinutes :: int
  mt_requiresNda :: bool
  mt_isActive :: bool

record slot_hold =
  sh_id :: uuid
  sh_meetingTypeId :: uuid
  sh_slotStart :: instant
  sh_slotEnd :: instant
  sh_heldByEmail :: string
  sh_heldByName :: "string option"
  sh_status :: hold_status
  sh_expiresAt :: instant
  sh_idempotencyKey :: uuid

record booking =
  bk_id :: uuid
  bk_meetingTypeId :: uuid
  bk_hostUserId :: uuid
  bk_slotStart :: instant
  bk_slotEnd :: instant
  bk_guestEmail :: string
  bk_guestName :: string
  bk_guestTimezone :: string
  bk_guestNotes :: "string option"
  bk_status :: booking_status
  bk_idempotencyKey :: uuid
  bk_fromHoldId :: "uuid option"

record document =
  doc_id :: uuid
  doc_holdId :: "uuid option"
  doc_bookingId :: "uuid option"
  doc_status :: document_status
  doc_signerEmail :: string
  doc_externalEnvelopeId :: "string option"
  doc_sentAt :: "instant option"
  doc_signedAt :: "instant option"
  doc_signedStorageUrl :: "string option"

text \<open>The JSON bodies the handlers answer with.\<close>

datatype json_body =
    Received
  | ErrorBody string "string option"
  | MessageBody string
  | HoldCreatedBody uuid instant bool
  | BookingBody uuid instant instant string string

record processed_webhook =
  pw_webhookId :: string
  pw_provider :: string
  pw_eventType :: string
  pw_status :: string
  pw_responseBody :: "json_body option"
  pw_processedAt :: "instant option"

text \<open>
  Calendar dates are day numbers (days since 1970-01-01) and a time of day has an
  hour, a minute and a second. A user's zone is the name of a zone.
\<close>

type_synonym date = int

record time_of_day =
  tod_hour :: int
  tod_minute :: int
  tod_second :: int

record user =
  u_id :: uuid
  u_timezone :: string

record availability_rule =
  ar_userId :: uuid
  ar_meetingTypeId :: "uuid option"
  ar_dayOfWeek :: int
  ar_startTime :: time_of_day
  ar_endTime :: time_of_day
  ar_effectiveFrom :: date
  ar_effectiveUntil :: "date option"
  ar_isActive :: bool

record blackout_date =
  bd_userId :: uuid
  bd_blackoutDate :: date
  bd_startTime :: "time_of_day option"
  bd_endTime :: "time_of_day option"
  bd_isRecurringYearly :: bool

record db =
  users :: "user list"
  meetingTypes :: "meeting_type list"
  availabilityRules :: "availability_rule list"
  blackoutDates :: "blackout_date list"
  slotHolds :: "slot_hold list"
  bookings :: "booking list"
  documents :: "document list"
  processedWebhooks :: "processed_webhook list"

text \<open>Errors raised by the storage layer; the string is the constraint named in the message.\<close>

datatype db_error =
    ExclusionViolation string
  | UniqueViolation string
  | RangeBoundsError

fun error_message_includes :: "db_error \<Rightarrow> string \<Rightarrow> bool" where
  "error_message_includes (ExclusionViolation c) n = (c = n)"
| "error_message_includes (UniqueViolation c) n = (c = n)"
| "error_message_includes RangeBoundsError n = False"

subsection \<open>Ranges and the constraints of the schema\<close>

text \<open>
  \<open>tstzrange(a, b, '[)') && tstzrange(c, d, '[)')\<close>: two half-open ranges overlap when
  they share a point, so an empty range overlaps nothing. Building a range with
  \<open>a > b\<close> is an error of the storage layer.
\<close>

definition range_overlaps :: "instant \<Rightarrow> instant \<Rightarrow> instant \<Rightarrow> instant \<Rightarrow> bool" where
  "range_overlaps a b c d = (a < b \<and> c < d \<and> a < d \<and> c < b)"

definition first_row :: "'a list \<Rightarrow> 'a option" where
  "first_row rows = (case rows of [] \<Rightarrow> None | r # _ \<Rightarrow> Some r)"

text \<open>The exclusion constraint \<open>no_overlapping_active_holds\<close> as a test on a new row.\<close>

definition violates_no_overlapping_active_holds :: "slot_hold list \<Rightarrow> slot_hold \<Rightarrow> bool" where
  "violates_no_overlapping_active_holds rows h =
     (sh_status h = HoldActive \<and>
      (\<exists>g \<in> set rows. sh_status g = HoldActive \<and> sh_meetingTypeId g = sh_meetingTypeId h \<and>
         range_overlaps (sh_slotStart g) (sh_slotEnd g) (sh_slotStart h) (sh_slotEnd h)))"

definition insert_slotHold :: "db \<Rightarrow> slot_hold \<Rightarrow> db_error + db" where
  "insert_slotHold d h =
     (if sh_slotEnd h < sh_slotStart h then Inl RangeBoundsError
      else if sh_id h \<in> set (map sh_id (slotHolds d)) then Inl (UniqueViolation ''slot_holds_pkey'')
      else if sh_idempotencyKey h \<in> set (map sh_idempotencyKey (slotHolds d))
        then Inl (UniqueViolation ''slot_holds_idempotency_key_key'')
      else if violates_no_overlapping_active_holds (slotHolds d) h
        then Inl (ExclusionViolation ''no_overlapping_active_holds'')
      else Inr (d\<lparr>slotHolds := slotHolds d @ [h]\<rparr>))"

text \<open>The exclusion constraint \<open>no_double_booking\<close>.\<close>

definition violates_no_double_booking :: "booking list \<Rightarrow> booking \<Rightarrow> bool" where
  "violates_no_double_booking rows b =
     (bk_status b = BookingConfirmed \<and>
      (\<exists>c \<in> set rows. bk_status c = BookingConfirmed \<and> bk_meetingTypeId c = bk_meetingTypeId b \<and>
         range_overlaps (bk_slotStart c) (bk_slotEnd c) (bk_slotStart b) (bk_slotEnd b)))"

definition insert_booking :: "db \<Rightarrow> booking \<Rightarrow> db_error + db" where
  "insert_booking d b =
     (if bk_slotEnd b < bk_slotStart b then Inl RangeBoundsError
      else if bk_id b \<in> set (map bk_id (bookings d)) then Inl (UniqueViolation ''bookings_pkey'')
      else if bk_idempotencyKey b \<in> set (map bk_idempotencyKey (bookings d))
        then Inl (UniqueViolation ''bookings_idempotency_key_key'')
      else if violates_no_double_booking (bookings d) b
        then Inl (ExclusionViolation ''no_double_booking'')
      else Inr (d\<lparr>bookings := bookings d @ [b]\<rparr>))"

section \<open>The event bus\<close>

datatype release_reason = ReasonExpired | ReasonCanceled | ReasonConverted

datatype event_data =
    SlotHeld uuid uuid instant instant string instant
  | SlotReleased uuid uuid instant instant release_reason
  | BookingConfirmedEv uuid uuid uuid instant instant string string bool
  | BookingCanceledEv uuid uuid instant instant string "string option"
  | NdaCreated uuid uuid string string
  | NdaSent uuid uuid string string
  | NdaSigned uuid uuid string instant
  | NdaExpired uuid uuid

record event =
  ev_eventId :: uuid
  ev_eventType :: string
  ev_occurredAt :: instant
  ev_data :: event_data

text \<open>
  \<open>EventPublisher.publish\<close>: the event id is the message id, and the stream drops a
  message whose id it has already stored (the deduplication window is not modelled:
  every stored message counts).
\<close>

definition publish :: "event list \<Rightarrow> event \<Rightarrow> event list" where
  "publish bus e = (if ev_eventId e \<in> set (map ev_eventId bus) then bus else bus @ [e])"

definition publishSlotHeld :: "event list \<Rightarrow> uuid \<Rightarrow> instant \<Rightarrow> event_data \<Rightarrow> event list" where
  "publishSlotHeld bus eid now dat =
     publish bus \<lparr>ev_eventId = eid, ev_eventType = ''slot.held'', ev_occurredAt = now, ev_data = dat\<rparr>"

definition publishSlotReleased :: "event list \<Rightarrow> uuid \<Rightarrow> instant \<Rightarrow> event_data \<Rightarrow> event list" where
  "publishSlotReleased bus eid now dat =
     publish bus \<lparr>ev_eventId = eid, ev_eventType = ''slot.released'', ev_occurredAt = now, ev_data = dat\<rparr>"

definition publishBookingConfirmed :: "event list \<Rightarrow> uuid \<Rightarrow> instant \<Rightarrow> event_data \<Rightarrow> event list" where
  "publishBookingConfirmed bus eid now dat =
     publish bus \<lparr>ev_eventId = eid, ev_eventType = ''booking.confirmed'', ev_occurredAt = now, ev_data = dat\<rparr>"

definition publishBookingCanceled :: "event list \<Rightarrow> uuid \<Rightarrow> instant \<Rightarrow> event_data \<Rightarrow> event list" where
  "publishBookingCanceled bus eid now dat =
     publish bus \<lparr>ev_eventId = eid, ev_eventType = ''booking.canceled'', ev_occurredAt = now, ev_data = dat\<rparr>"

definition publishNdaCreated :: "event list \<Rightarrow> uuid \<Rightarrow> instant \<Rightarrow> event_data \<Rightarrow> event list" where
  "publishNdaCreated bus eid now dat =
     publish bus \<lparr>ev_eventId = eid, ev_eventType = ''nda.created'', ev_occurredAt = now, ev_data = dat\<rparr>"

definition publishNdaSent :: "event list \<Rightarrow> uuid \<Rightarrow> instant \<Rightarrow> event_data \<Rightarrow> event list" where
  "publishNdaSent bus eid now dat =
     publish bus \<lparr>ev_eventId = eid, ev_eventType = ''nda.sent'', ev_occurredAt = now, ev_data = dat\<rparr>"

definition publishNdaSigned :: "event list \<Rightarrow> uuid \<Rightarrow> instant \<Rightarrow> event_data \<Rightarrow> event list" where
  "publishNdaSigned bus eid now dat =
     publish bus \<lparr>ev_eventId = eid, ev_eventType = ''nda.signed'', ev_occurredAt = now, ev_data = dat\<rparr>"

definition publishNdaExpired :: "event list \<Rightarrow> uuid \<Rightarrow> instant \<Rightarrow> event_data \<Rightarrow> event list" where
  "publishNdaExpired bus eid now dat =
     publish bus \<lparr>ev_eventId = eid, ev_eventType = ''nda.expired'', ev_occurredAt = now, ev_data = dat\<rparr>"

section \<open>HoldService\<close>

definition HOLD_DURATION_MS :: int where
  "HOLD_DURATION_MS = 15 * 60 * 1000"

record create_hold_params =
  chp_meetingTypeId :: uuid
  chp_slotStart :: instant
  chp_slotEnd :: instant
  chp_email :: string
  chp_name :: "string option"
  chp_idempotencyKey :: uuid

record hold_result =
  hr_success :: bool
  hr_holdId :: "uuid option"
  hr_expiresAt :: "instant option"
  hr_error :: "string option"

definition hold_ok :: "uuid \<Rightarrow> instant \<Rightarrow> hold_result" where
  "hold_ok hid exp = \<lparr>hr_success = True, hr_holdId = Some hid, hr_expiresAt = Some exp, hr_error = None\<rparr>"

definition hold_fail :: "string \<Rightarrow> hold_result" where
  "hold_fail msg = \<lparr>hr_success = False, hr_holdId = None, hr_expiresAt = None, hr_error = Some msg\<rparr>"

text \<open>\<open>String.prototype.toLowerCase\<close> on the ASCII letters.\<close>

definition lower_char :: "char \<Rightarrow> char" where
  "lower_char c = (let n = (of_char c :: nat) in if 65 \<le> n \<and> n \<le> 90 then char_of (n + 32) else c)"

definition toLowerCase :: "string \<Rightarrow> string" where
  "toLowerCase s = map lower_char s"

text \<open>
  The body of the transaction of \<open>createHold\<close>: \<open>Inl\<close> is a thrown storage error, \<open>Inr\<close>
  the value returned together with the database to commit. \<open>now\<close> is \<open>Date.now()\<close> and
  \<open>newId\<close> the value of \<open>crypto.randomUUID()\<close>. The advisory lock of step 3 orders
  concurrent transactions and has no effect on a single one. The conflict queries
  build the range of the request, which the storage layer refuses when the end is
  before the start.
\<close>

definition createHold_tx :: "db \<Rightarrow> instant \<Rightarrow> uuid \<Rightarrow> create_hold_params \<Rightarrow> db_error + (hold_result \<times> db)" where
  "createHold_tx d now newId p =
     (case first_row (filter (\<lambda>h. sh_idempotencyKey h = chp_idempotencyKey p) (slotHolds d)) of
        Some existing \<Rightarrow>
          (if sh_status existing = HoldActive
           then Inr (hold_ok (sh_id existing) (sh_expiresAt existing), d)
           else Inr (hold_fail ''Previous hold expired'', d))
      | None \<Rightarrow>
          (case first_row (filter (\<lambda>m. mt_id m = chp_meetingTypeId p \<and> mt_isActive m) (meetingTypes d)) of
             None \<Rightarrow> Inr (hold_fail ''Meeting type not found'', d)
           | Some meetingType \<Rightarrow>
               if chp_slotEnd p < chp_slotStart p then Inl RangeBoundsError
               else if \<exists>h \<in> set (slotHolds d). sh_meetingTypeId h = chp_meetingTypeId p \<and>
                         sh_status h = HoldActive \<and>
                         range_overlaps (sh_slotStart h) (sh_slotEnd h) (chp_slotStart p) (chp_slotEnd p)
                 then Inr (hold_fail ''Slot already held'', d)
               else if \<exists>b \<in> set (bookings d). bk_meetingTypeId b = chp_meetingTypeId p \<and>
                         bk_status b = BookingConfirmed \<and>
                         range_overlaps (bk_slotStart b) (bk_slotEnd b) (chp_slotStart p) (chp_slotEnd p)
                 then Inr (hold_fail ''Slot already booked'', d)
               else
                 (let holdId = newId;
                      expiresAt = now + HOLD_DURATION_MS
                  in case insert_slotHold d
                       \<lparr>sh_id = holdId, sh_meetingTypeId = chp_meetingTypeId p,
                        sh_slotStart = chp_slotStart p, sh_slotEnd = chp_slotEnd p,
                        sh_heldByEmail = toLowerCase (chp_email p), sh_heldByName = chp_name p,
                        sh_status = HoldActive, sh_expiresAt = expiresAt,
                        sh_idempotencyKey = chp_idempotencyKey p\<rparr> of
                       Inl e \<Rightarrow> Inl e
                     | Inr d' \<Rightarrow> Inr (hold_ok holdId expiresAt, d'))))"

text \<open>
  \<open>createHold\<close>: the transaction, and the \<open>catch\<close> that turns a violation of
  \<open>no_overlapping_active_holds\<close> into a failure result and rethrows anything else.
  A thrown error rolls the transaction back.
\<close>

definition createHold :: "db \<Rightarrow> instant \<Rightarrow> uuid \<Rightarrow> create_hold_params \<Rightarrow> (db_error + hold_result) \<times> db" where
  "createHold d now newId p =
     (case createHold_tx d now newId p of
        Inr (r, d') \<Rightarrow> (Inr r, d')
      | Inl e \<Rightarrow>
          if error_message_includes e ''no_overlapping_active_holds''
          then (Inr (hold_fail ''Slot already held''), d)
          else (Inl e, d))"

text \<open>
  An UPDATE ... WHERE ... RETURNING: the rows that match are rewritten in place, and the
  rewritten rows are returned.
\<close>

definition update_where :: "('a \<Rightarrow> bool) \<Rightarrow> ('a \<Rightarrow> 'a) \<Rightarrow> 'a list \<Rightarrow> 'a list" where
  "update_where P f rows = map (\<lambda>r. if P r then f r else r) rows"

definition returning :: "('a \<Rightarrow> bool) \<Rightarrow> ('a \<Rightarrow> 'a) \<Rightarrow> 'a list \<Rightarrow> 'a list" where
  "returning P f rows = map f (filter P rows)"

definition getHold :: "db \<Rightarrow> uuid \<Rightarrow> slot_hold option" where
  "getHold d holdId = first_row (filter (\<lambda>h. sh_id h = holdId) (slotHolds d))"

text \<open>
  \<open>releaseHold\<close> returns whether a row was updated, the database and the bus. \<open>eid\<close> is
  the id drawn for the event, \<open>now\<close> its \<open>occurredAt\<close>.
\<close>

definition releaseHold ::
  "db \<Rightarrow> event list \<Rightarrow> instant \<Rightarrow> uuid \<Rightarrow> uuid \<Rightarrow> release_reason \<Rightarrow> bool \<times> db \<times> event list" where
  "releaseHold d bus now eid holdId reason =
     (let P = (\<lambda>h. sh_id h = holdId \<and> sh_status h = HoldActive);
          f = (\<lambda>h. h\<lparr>sh_status := (if reason = ReasonConverted then HoldConverted else HoldReleased)\<rparr>);
          d' = d\<lparr>slotHolds := update_where P f (slotHolds d)\<rparr>
      in case first_row (returning P f (slotHolds d)) of
           Some hold \<Rightarrow>
             (True, d', publishSlotReleased bus eid now
                (SlotReleased (sh_id hold) (sh_meetingTypeId hold) (sh_slotStart hold) (sh_slotEnd hold) reason))
         | None \<Rightarrow> (False, d', bus))"

text \<open>
  \<open>expireHolds\<close>: one event per returned row; \<open>eids i\<close> is the id drawn for the
  event of the \<open>i\<close>-th returned row.
\<close>

fun publish_expired :: "event list \<Rightarrow> instant \<Rightarrow> (nat \<Rightarrow> uuid) \<Rightarrow> nat \<Rightarrow> slot_hold list \<Rightarrow> event list" where
  "publish_expired bus now eids i [] = bus"
| "publish_expired bus now eids i (h # hs) =
     publish_expired
       (publishSlotReleased bus (eids i) now
          (SlotReleased (sh_id h) (sh_meetingTypeId h) (sh_slotStart h) (sh_slotEnd h) ReasonExpired))
       now eids (Suc i) hs"

definition expireHolds ::
  "db \<Rightarrow> event list \<Rightarrow> instant \<Rightarrow> (nat \<Rightarrow> uuid) \<Rightarrow> slot_hold list \<times> db \<times> event list" where
  "expireHolds d bus now eids =
     (let P = (\<lambda>h. sh_status h = HoldActive \<and> sh_expiresAt h < now);
          f = (\<lambda>h. h\<lparr>sh_status := HoldExpired\<rparr>);
          expired = returning P f (slotHolds d)
      in (expired, d\<lparr>slotHolds := update_where P f (slotHolds d)\<rparr>, publish_expired bus now eids 0 expired))"

definition extendHold :: "db \<Rightarrow> instant \<Rightarrow> uuid \<Rightarrow> slot_hold option \<times> db" where
  "extendHold d now holdId =
     (let P = (\<lambda>h. sh_id h = holdId \<and> sh_status h = HoldActive);
          f = (\<lambda>h. h\<lparr>sh_expiresAt := now + HOLD_DURATION_MS\<rparr>)
      in (first_row (returning P f (slotHolds d)), d\<lparr>slotHolds := update_where P f (slotHolds d)\<rparr>))"

section \<open>BookingService\<close>

record confirm_booking_params =
  cbp_holdId :: uuid
  cbp_guestName :: string
  cbp_guestTimezone :: string
  cbp_guestNotes :: "string option"
  cbp_idempotencyKey :: uuid

record booking_result =
  br_success :: bool
  br_booking :: "booking option"
  br_error :: "string option"

definition booking_ok :: "booking \<Rightarrow> booking_result" where
  "booking_ok b = \<lparr>br_success = True, br_booking = Some b, br_error = None\<rparr>"

definition booking_fail :: "string \<Rightarrow> booking_result" where
  "booking_fail msg = \<lparr>br_success = False, br_booking = None, br_error = Some msg\<rparr>"

fun hold_status_text :: "hold_status \<Rightarrow> string" where
  "hold_status_text HoldActive = ''active''"
| "hold_status_text HoldConverted = ''converted''"
| "hold_status_text HoldExpired = ''expired''"
| "hold_status_text HoldReleased = ''released''"

text \<open>
  The body of the transaction of \<open>confirmBooking\<close>, steps 1 to 7. \<open>now\<close> is
  \<open>new Date()\<close>, \<open>bookingId\<close> the value of \<open>crypto.randomUUID()\<close>.
\<close>

definition confirmBooking_tx ::
  "db \<Rightarrow> instant \<Rightarrow> uuid \<Rightarrow> confirm_booking_params \<Rightarrow> db_error + (booking_result \<times> db)" where
  "confirmBooking_tx d now bookingId p =
     (case first_row (filter (\<lambda>b. bk_idempotencyKey b = cbp_idempotencyKey p) (bookings d)) of
        Some existingBooking \<Rightarrow> Inr (booking_ok existingBooking, d)
      | None \<Rightarrow>
          (case first_row (filter (\<lambda>h. sh_id h = cbp_holdId p) (slotHolds d)) of
             None \<Rightarrow> Inr (booking_fail ''Hold not found'', d)
           | Some hold \<Rightarrow>
               if sh_status hold \<noteq> HoldActive
               then Inr (booking_fail (''Hold is '' @ hold_status_text (sh_status hold)), d)
               else if sh_expiresAt hold < now
               then Inr (booking_fail ''Hold has expired'',
                         d\<lparr>slotHolds := update_where (\<lambda>h. sh_id h = cbp_holdId p)
                                          (\<lambda>h. h\<lparr>sh_status := HoldExpired\<rparr>) (slotHolds d)\<rparr>)
               else
                 (case first_row (filter (\<lambda>m. mt_id m = sh_meetingTypeId hold) (meetingTypes d)) of
                    None \<Rightarrow> Inr (booking_fail ''Meeting type not found'', d)
                  | Some meetingType \<Rightarrow>
                      if mt_requiresNda meetingType \<and>
                         first_row (filter (\<lambda>x. doc_holdId x = Some (cbp_holdId p) \<and> doc_status x = DocSigned)
                                      (documents d)) = None
                      then Inr (booking_fail ''NDA must be signed before booking'', d)
                      else
                        (let booking =
                           \<lparr>bk_id = bookingId, bk_meetingTypeId = sh_meetingTypeId hold,
                            bk_hostUserId = mt_ownerId meetingType,
                            bk_slotStart = sh_slotStart hold, bk_slotEnd = sh_slotEnd hold,
                            bk_guestEmail = sh_heldByEmail hold, bk_guestName = cbp_guestName p,
                            bk_guestTimezone = cbp_guestTimezone p, bk_guestNotes = cbp_guestNotes p,
                            bk_status = BookingConfirmed, bk_idempotencyKey = cbp_idempotencyKey p,
                            bk_fromHoldId = Some (cbp_holdId p)\<rparr>
                         in case insert_booking d booking of
                              Inl e \<Rightarrow> Inl e
                            | Inr d1 \<Rightarrow>
                                (let d2 = d1\<lparr>slotHolds := update_where (\<lambda>h. sh_id h = cbp_holdId p)
                                                 (\<lambda>h. h\<lparr>sh_status := HoldConverted\<rparr>) (slotHolds d1)\<rparr>;
                                     d3 = d2\<lparr>documents := update_where (\<lambda>x. doc_holdId x = Some (cbp_holdId p))
                                                 (\<lambda>x. x\<lparr>doc_bookingId := Some bookingId\<rparr>) (documents d2)\<rparr>
                                 in Inr (booking_ok booking, d3))))))"

text \<open>
  \<open>confirmBooking\<close>: the transaction, and the \<open>catch\<close> that turns a violation of
  \<open>no_double_booking\<close> into a failure result and rethrows anything else.
\<close>

definition confirmBooking ::
  "db \<Rightarrow> instant \<Rightarrow> uuid \<Rightarrow> confirm_booking_params \<Rightarrow> (db_error + booking_result) \<times> db" where
  "confirmBooking d now bookingId p =
     (case confirmBooking_tx d now bookingId p of
        Inr (r, d') \<Rightarrow> (Inr r, d')
      | Inl e \<Rightarrow>
          if error_message_includes e ''no_double_booking''
          then (Inr (booking_fail ''Slot already booked''), d)
          else (Inl e, d))"

datatype canceled_by = ByHost | ByGuest | BySystem

fun canceled_by_text :: "canceled_by \<Rightarrow> string" where
  "canceled_by_text ByHost = ''host''"
| "canceled_by_text ByGuest = ''guest''"
| "canceled_by_text BySystem = ''system''"

definition cancelBooking ::
  "db \<Rightarrow> event list \<Rightarrow> instant \<Rightarrow> uuid \<Rightarrow> uuid \<Rightarrow> canceled_by \<Rightarrow> string option
     \<Rightarrow> booking option \<times> db \<times> event list" where
  "cancelBooking d bus now eid bookingId canceledBy reason =
     (let P = (\<lambda>b. bk_id b = bookingId \<and> bk_status b = BookingConfirmed);
          f = (\<lambda>b. b\<lparr>bk_status := BookingCanceled\<rparr>);
          d' = d\<lparr>bookings := update_where P f (bookings d)\<rparr>
      in case first_row (returning P f (bookings d)) of
           Some b \<Rightarrow>
             (Some b, d', publishBookingCanceled bus eid now
                (BookingCanceledEv (bk_id b) (bk_meetingTypeId b) (bk_slotStart b) (bk_slotEnd b)
                   (canceled_by_text canceledBy) reason))
         | None \<Rightarrow> (None, d', bus))"

definition markAsCompleted :: "db \<Rightarrow> uuid \<Rightarrow> booking option \<times> db" where
  "markAsCompleted d bookingId =
     (let P = (\<lambda>b. bk_id b = bookingId \<and> bk_status b = BookingConfirmed);
          f = (\<lambda>b. b\<lparr>bk_status := BookingCompleted\<rparr>)
      in (first_row (returning P f (bookings d)), d\<lparr>bookings := update_where P f (bookings d)\<rparr>))"

definition markAsNoShow :: "db \<Rightarrow> uuid \<Rightarrow> booking option \<times> db" where
  "markAsNoShow d bookingId =
     (let P = (\<lambda>b. bk_id b = bookingId \<and> bk_status b = BookingConfirmed);
          f = (\<lambda>b. b\<lparr>bk_status := BookingNoShow\<rparr>)
      in (first_row (returning P f (bookings d)), d\<lparr>bookings := update_where P f (bookings d)\<rparr>))"

section \<open>NdaService\<close>

record nda_result =
  nr_success :: bool
  nr_document :: "document option"
  nr_signUrl :: "string option"
  nr_error :: "string option"

definition insert_document :: "db \<Rightarrow> document \<Rightarrow> db_error + db" where
  "insert_document d x =
     (if doc_id x \<in> set (map doc_id (documents d)) then Inl (UniqueViolation ''documents_pkey'')
      else Inr (d\<lparr>documents := documents d @ [x]\<rparr>))"

text \<open>
  \<open>createNda\<close>. \<open>envelope\<close> is what the provider call \<open>createNdaEnvelope\<close> gave:
  the envelope id and the signing URL, or \<open>None\<close> when the call threw. \<open>docId\<close> is the id
  the storage layer draws for the new row. An existing document that is not signed
  does not stop a new one from being created.
\<close>

definition createNda ::
  "db \<Rightarrow> event list \<Rightarrow> instant \<Rightarrow> uuid \<Rightarrow> uuid \<Rightarrow> (string \<times> string) option
     \<Rightarrow> uuid \<Rightarrow> string \<Rightarrow> string \<Rightarrow> nda_result \<times> db \<times> event list" where
  "createNda d bus now docId eid envelope holdId signerEmail signerName =
     (let fail = (\<lambda>msg. (\<lparr>nr_success = False, nr_document = None, nr_signUrl = None, nr_error = Some msg\<rparr>, d, bus))
      in case first_row (filter (\<lambda>h. sh_id h = holdId) (slotHolds d)) of
           None \<Rightarrow> fail ''Hold not found''
         | Some hold \<Rightarrow>
             if sh_status hold \<noteq> HoldActive then fail (''Hold is '' @ hold_status_text (sh_status hold))
             else
               (case (case first_row (filter (\<lambda>x. doc_holdId x = Some holdId) (documents d)) of
                        Some existingDoc \<Rightarrow> if doc_status existingDoc = DocSigned then Some existingDoc else None
                      | None \<Rightarrow> None) of
                  Some existingDoc \<Rightarrow>
                    (\<lparr>nr_success = True, nr_document = Some existingDoc, nr_signUrl = None, nr_error = None\<rparr>, d, bus)
                | None \<Rightarrow>
                    (case first_row (filter (\<lambda>m. mt_id m = sh_meetingTypeId hold) (meetingTypes d)) of
                       None \<Rightarrow> fail ''Meeting type does not require NDA''
                     | Some meetingType \<Rightarrow>
                         if \<not> mt_requiresNda meetingType then fail ''Meeting type does not require NDA''
                         else
                           (case envelope of
                              None \<Rightarrow> fail ''Failed to create NDA''
                            | Some (envelopeId, signUrl) \<Rightarrow>
                                (let x = \<lparr>doc_id = docId, doc_holdId = Some holdId, doc_bookingId = None,
                                          doc_status = DocPending, doc_signerEmail = toLowerCase signerEmail,
                                          doc_externalEnvelopeId = Some envelopeId, doc_sentAt = None,
                                          doc_signedAt = None, doc_signedStorageUrl = None\<rparr>
                                 in case insert_document d x of
                                      Inl e \<Rightarrow> fail ''Failed to create NDA''
                                    | Inr d' \<Rightarrow>
                                        (\<lparr>nr_success = True, nr_document = Some x, nr_signUrl = Some signUrl,
                                          nr_error = None\<rparr>,
                                         d',
                                         publishNdaCreated bus eid now
                                           (NdaCreated docId holdId (toLowerCase signerEmail) signerName)))))))"

text \<open>
  \<open>updateDocumentStatus\<close>: the given status is written to the row, together with
  \<open>signedAt\<close> and \<open>signedStorageUrl\<close> when given.
\<close>

definition updateDocumentStatus ::
  "db \<Rightarrow> uuid \<Rightarrow> document_status \<Rightarrow> instant option \<Rightarrow> string option \<Rightarrow> document option \<times> db" where
  "updateDocumentStatus d documentId status signedAt signedStorageUrl =
     (let P = (\<lambda>x. doc_id x = documentId);
          f = (\<lambda>x. x\<lparr>doc_status := status,
                       doc_signedAt := (case signedAt of None \<Rightarrow> doc_signedAt x | Some t \<Rightarrow> Some t),
                       doc_signedStorageUrl :=
                         (case signedStorageUrl of None \<Rightarrow> doc_signedStorageUrl x | Some u \<Rightarrow> Some u)\<rparr>)
      in (first_row (returning P f (documents d)), d\<lparr>documents := update_where P f (documents d)\<rparr>))"

section \<open>The webhook route\<close>

record http_response =
  resp_status :: nat
  resp_body :: json_body

definition json :: "json_body \<Rightarrow> nat \<Rightarrow> http_response" where
  "json b st = \<lparr>resp_status = st, resp_body = b\<rparr>"

record signwell_body =
  wb_event :: string
  wb_document_id :: string
  wb_completed_at :: "instant option"
  wb_hold_id :: "string option"
  wb_completed_url :: "string option"

text \<open>
  The request and its environment. \<open>hmac_hex secret body\<close> stands for the HMAC-SHA-256
  digest in hex and \<open>json_parse\<close> for \<open>JSON.parse\<close> (\<open>None\<close> when it throws); both are
  library functions and are taken as parameters. \<open>timingSafeEqual\<close> throws on buffers
  of different length, which the handler catches and treats as a mismatch.
\<close>

record webhook_env =
  env_secret :: "string option"
  env_hmac_hex :: "string \<Rightarrow> string \<Rightarrow> string"
  env_json_parse :: "string \<Rightarrow> signwell_body option"

definition verifySignwellSignature :: "webhook_env \<Rightarrow> string option \<Rightarrow> string \<Rightarrow> string \<Rightarrow> bool" where
  "verifySignwellSignature env signature body secret =
     (case signature of
        None \<Rightarrow> False
      | Some sg \<Rightarrow> if sg = [] then False else sg = env_hmac_hex env secret body)"

text \<open>The check \<open>secret && !verifySignwellSignature(...)\<close>: no secret, no verification.\<close>

definition signature_rejected :: "webhook_env \<Rightarrow> string option \<Rightarrow> string \<Rightarrow> bool" where
  "signature_rejected env signature rawBody =
     (case env_secret env of
        None \<Rightarrow> False
      | Some secret \<Rightarrow> secret \<noteq> [] \<and> \<not> verifySignwellSignature env signature rawBody secret)"

definition webhookId_of :: "signwell_body \<Rightarrow> string" where
  "webhookId_of body = wb_document_id body @ '':'' @ wb_event body"

text \<open>
  The statements inside the \<open>try\<close> of the handler that can throw (the storage layer or
  the bus is down): the update of the documents, the select of the document, the
  publication of the event, and the update that marks the record as completed. Every
  statement is its own transaction, so what was written before the throw stays written.
\<close>

datatype failure_point = FailUpdateDocuments | FailSelectDocument | FailPublish | FailMarkCompleted

text \<open>
  The dispatch on the event name: the update of the documents of the hold, and the
  event published when the hold has a document. \<open>holdId\<close> is taken only when it is a
  non-empty string. A field that is \<open>undefined\<close> in a \<open>set\<close> leaves its column as it
  is, so the signed URL is written only when the payload has one. \<open>failure\<close> names the
  statement that throws, if one does; the third component of the result says that the
  dispatch threw, and the state is then the one reached at the throw.
\<close>

definition dispatch_signwell ::
  "db \<Rightarrow> event list \<Rightarrow> instant \<Rightarrow> uuid \<Rightarrow> failure_point option \<Rightarrow> signwell_body
     \<Rightarrow> db \<times> event list \<times> bool" where
  "dispatch_signwell d bus now eid failure body =
     (case wb_hold_id body of
        None \<Rightarrow> (d, bus, False)
      | Some holdId \<Rightarrow>
          if holdId = [] then (d, bus, False)
          else if wb_event body = ''document_sent'' then
            (if failure = Some FailUpdateDocuments then (d, bus, True)
             else
               (let d' = d\<lparr>documents := update_where (\<lambda>x. doc_holdId x = Some holdId)
                             (\<lambda>x. x\<lparr>doc_status := DocSent, doc_sentAt := Some now,
                                      doc_externalEnvelopeId := Some (wb_document_id body)\<rparr>) (documents d)\<rparr>
                in if failure = Some FailSelectDocument then (d', bus, True)
                   else case first_row (filter (\<lambda>x. doc_holdId x = Some holdId) (documents d')) of
                     None \<Rightarrow> (d', bus, False)
                   | Some doc \<Rightarrow>
                       if failure = Some FailPublish then (d', bus, True)
                       else (d', publishNdaSent bus eid now
                                   (NdaSent (doc_id doc) holdId (doc_signerEmail doc) (wb_document_id body)),
                             False)))
          else if wb_event body = ''document_completed'' then
            (if failure = Some FailUpdateDocuments then (d, bus, True)
             else
               (let signedAt = (case wb_completed_at body of Some t \<Rightarrow> t | None \<Rightarrow> now);
                    d' = d\<lparr>documents := update_where (\<lambda>x. doc_holdId x = Some holdId)
                             (\<lambda>x. x\<lparr>doc_status := DocSigned, doc_signedAt := Some signedAt,
                                      doc_signedStorageUrl :=
                                        (case wb_completed_url body of
                                           None \<Rightarrow> doc_signedStorageUrl x | Some u \<Rightarrow> Some u)\<rparr>)
                             (documents d)\<rparr>
                in if failure = Some FailSelectDocument then (d', bus, True)
                   else case first_row (filter (\<lambda>x. doc_holdId x = Some holdId) (documents d')) of
                     None \<Rightarrow> (d', bus, False)
                   | Some doc \<Rightarrow>
                       if failure = Some FailPublish then (d', bus, True)
                       else (d', publishNdaSigned bus eid now
                                   (NdaSigned (doc_id doc) holdId (doc_signerEmail doc) signedAt),
                             False)))
          else if wb_event body = ''document_expired'' then
            (if failure = Some FailUpdateDocuments then (d, bus, True)
             else
               (let d' = d\<lparr>documents := update_where (\<lambda>x. doc_holdId x = Some holdId)
                             (\<lambda>x. x\<lparr>doc_status := DocExpired\<rparr>) (documents d)\<rparr>
                in if failure = Some FailSelectDocument then (d', bus, True)
                   else case first_row (filter (\<lambda>x. doc_holdId x = Some holdId) (documents d')) of
                     None \<Rightarrow> (d', bus, False)
                   | Some doc \<Rightarrow>
                       if failure = Some FailPublish then (d', bus, True)
                       else (d', publishNdaExpired bus eid now (NdaExpired (doc_id doc) holdId), False)))
          else (d, bus, False))"

definition is_webhook :: "string \<Rightarrow> processed_webhook \<Rightarrow> bool" where
  "is_webhook wid w = (pw_provider w = ''signwell'' \<and> pw_webhookId w = wid)"

text \<open>
  \<open>POST /signwell\<close>. When the dispatch threw, or the update that marks the record as
  completed throws, the \<open>catch\<close> marks the record as failed, on the state reached at the
  throw, and answers 500: the documents already updated stay updated. The statements
  before the \<open>try\<close> (the lookup and the insert of the record) and the update inside the
  \<open>catch\<close> are taken to succeed.
\<close>

definition post_signwell ::
  "webhook_env \<Rightarrow> db \<Rightarrow> event list \<Rightarrow> instant \<Rightarrow> uuid \<Rightarrow> failure_point option \<Rightarrow> string option
     \<Rightarrow> string \<Rightarrow> http_response \<times> db \<times> event list" where
  "post_signwell env d bus now eid failure signature rawBody =
     (if signature_rejected env signature rawBody
      then (json (ErrorBody ''Unauthorized'' (Some ''Invalid signature'')) 401, d, bus)
      else case env_json_parse env rawBody of
        None \<Rightarrow> (json (ErrorBody ''Bad Request'' (Some ''Invalid JSON'')) 400, d, bus)
      | Some body \<Rightarrow>
          (let webhookId = webhookId_of body;
               existing = first_row (filter (is_webhook webhookId) (processedWebhooks d))
           in if (case existing of Some w \<Rightarrow> pw_status w = ''completed'' | None \<Rightarrow> False)
              then (json (case existing of
                            Some w \<Rightarrow> (case pw_responseBody w of Some b \<Rightarrow> b | None \<Rightarrow> Received)
                          | None \<Rightarrow> Received) 200, d, bus)
              else
                (let d1 = (if existing = None
                           then d\<lparr>processedWebhooks := processedWebhooks d @
                                  [\<lparr>pw_webhookId = webhookId, pw_provider = ''signwell'',
                                    pw_eventType = wb_event body, pw_status = ''processing'',
                                    pw_responseBody = None, pw_processedAt = None\<rparr>]\<rparr>
                           else d)
                 in case dispatch_signwell d1 bus now eid failure body of
                      (d2, bus2, threw) \<Rightarrow>
                        if threw \<or> failure = Some FailMarkCompleted
                        then (json (ErrorBody ''Internal Server Error'' None) 500,
                              d2\<lparr>processedWebhooks := update_where (is_webhook webhookId)
                                    (\<lambda>w. w\<lparr>pw_status := ''failed'',
                                             pw_responseBody := Some (ErrorBody ''Error'' None),
                                             pw_processedAt := Some now\<rparr>) (processedWebhooks d2)\<rparr>,
                              bus2)
                        else
                          (json Received 200,
                           d2\<lparr>processedWebhooks := update_where (is_webhook webhookId)
                                 (\<lambda>w. w\<lparr>pw_status := ''completed'', pw_responseBody := Some Received,
                                          pw_processedAt := Some now\<rparr>) (processedWebhooks d2)\<rparr>,
                           bus2))))"

section \<open>The public booking routes\<close>

text \<open>
  \<open>getBySlugWithOwner\<close> (the join with the owner is not modelled: every meeting type
  has its owner by the foreign key).
\<close>

definition getBySlugWithOwner :: "db \<Rightarrow> string \<Rightarrow> meeting_type option" where
  "getBySlugWithOwner d slug =
     first_row (filter (\<lambda>m. mt_slug m = toLowerCase slug \<and> mt_isActive m) (meetingTypes d))"

definition getHoldWithMeetingType :: "db \<Rightarrow> uuid \<Rightarrow> (slot_hold \<times> meeting_type) option" where
  "getHoldWithMeetingType d holdId =
     first_row (concat (map (\<lambda>h. map (\<lambda>m. (h, m)) (filter (\<lambda>m. mt_id m = sh_meetingTypeId h) (meetingTypes d)))
                          (filter (\<lambda>h. sh_id h = holdId) (slotHolds d))))"

record hold_request =
  hq_slotStart :: instant
  hq_slotEnd :: instant
  hq_email :: string
  hq_name :: "string option"
  hq_idempotencyKey :: uuid

text \<open>
  \<open>POST /:slug/hold\<close>, after the rate limiter and the validation of the body. \<open>newId\<close> is
  the hold id drawn by \<open>createHold\<close>, \<open>eid\<close> the event id drawn by \<open>publishSlotHeld\<close>, and
  \<open>publishFails\<close> says that the publication throws (the bus is down). An error thrown by
  the service or by the publication is answered with 500 by the framework; the hold
  that \<open>createHold\<close> has committed stays.
\<close>

definition post_hold ::
  "db \<Rightarrow> event list \<Rightarrow> instant \<Rightarrow> uuid \<Rightarrow> uuid \<Rightarrow> bool \<Rightarrow> string \<Rightarrow> hold_request
     \<Rightarrow> http_response \<times> db \<times> event list" where
  "post_hold d bus now newId eid publishFails slug dat =
     (case getBySlugWithOwner d slug of
        None \<Rightarrow> (json (ErrorBody ''Not Found'' (Some ''Meeting type not found'')) 404, d, bus)
      | Some meetingType \<Rightarrow>
          (case createHold d now newId
                  \<lparr>chp_meetingTypeId = mt_id meetingType, chp_slotStart = hq_slotStart dat,
                   chp_slotEnd = hq_slotEnd dat, chp_email = hq_email dat, chp_name = hq_name dat,
                   chp_idempotencyKey = hq_idempotencyKey dat\<rparr> of
             (Inl e, d') \<Rightarrow> (json (ErrorBody ''Internal Server Error'' None) 500, d', bus)
           | (Inr result, d') \<Rightarrow>
               if \<not> hr_success result
               then (json (ErrorBody ''Conflict'' (hr_error result)) 409, d', bus)
               else if publishFails
               then (json (ErrorBody ''Internal Server Error'' None) 500, d', bus)
               else
                 (json (HoldCreatedBody (the (hr_holdId result)) (the (hr_expiresAt result))
                          (mt_requiresNda meetingType)) 201,
                  d',
                  publishSlotHeld bus eid now
                    (SlotHeld (the (hr_holdId result)) (mt_id meetingType) (hq_slotStart dat) (hq_slotEnd dat)
                       (hq_email dat) (the (hr_expiresAt result))))))"

text \<open>\<open>DELETE /:slug/hold/:holdId\<close>.\<close>

definition delete_hold ::
  "db \<Rightarrow> event list \<Rightarrow> instant \<Rightarrow> uuid \<Rightarrow> string \<Rightarrow> uuid \<Rightarrow> http_response \<times> db \<times> event list" where
  "delete_hold d bus now eid slug holdId =
     (case getBySlugWithOwner d slug of
        None \<Rightarrow> (json (ErrorBody ''Not Found'' (Some ''Meeting type not found'')) 404, d, bus)
      | Some meetingType \<Rightarrow>
          (case getHoldWithMeetingType d holdId of
             None \<Rightarrow> (json (ErrorBody ''Not Found'' (Some ''Hold not found'')) 404, d, bus)
           | Some (hold, m) \<Rightarrow>
               if mt_slug m \<noteq> slug
               then (json (ErrorBody ''Not Found'' (Some ''Hold not found'')) 404, d, bus)
               else
                 (case releaseHold d bus now eid holdId ReasonCanceled of
                    (released, d', bus') \<Rightarrow>
                      if \<not> released
                      then (json (ErrorBody ''Bad Request'' (Some ''Cannot release this hold'')) 400, d', bus')
                      else (json (MessageBody ''Hold released'') 200, d', bus'))))"

text \<open>
  \<open>POST /:slug/confirm\<close>. \<open>bookingId\<close> is the id drawn by \<open>confirmBooking\<close>, \<open>eid1\<close> the
  event id drawn by \<open>publishBookingConfirmed\<close> and \<open>eid2\<close> the one \<open>releaseHold\<close> would
  draw.
\<close>

definition post_confirm ::
  "db \<Rightarrow> event list \<Rightarrow> instant \<Rightarrow> uuid \<Rightarrow> uuid \<Rightarrow> uuid \<Rightarrow> string \<Rightarrow> confirm_booking_params
     \<Rightarrow> http_response \<times> db \<times> event list" where
  "post_confirm d bus now bookingId eid1 eid2 slug dat =
     (case getBySlugWithOwner d slug of
        None \<Rightarrow> (json (ErrorBody ''Not Found'' (Some ''Meeting type not found'')) 404, d, bus)
      | Some meetingType \<Rightarrow>
          (case getHoldWithMeetingType d (cbp_holdId dat) of
             None \<Rightarrow> (json (ErrorBody ''Not Found'' (Some ''Hold not found'')) 404, d, bus)
           | Some (hold, m) \<Rightarrow>
               if mt_slug m \<noteq> slug
               then (json (ErrorBody ''Not Found'' (Some ''Hold not found'')) 404, d, bus)
               else
                 (case confirmBooking d now bookingId dat of
                    (Inl e, d') \<Rightarrow> (json (ErrorBody ''Internal Server Error'' None) 500, d', bus)
                  | (Inr result, d') \<Rightarrow>
                      if \<not> br_success result
                      then (json (ErrorBody ''Bad Request'' (br_error result)) 400, d', bus)
                      else
                        (let b = the (br_booking result);
                             bus1 = publishBookingConfirmed bus eid1 now
                                      (BookingConfirmedEv (bk_id b) (mt_id meetingType) (mt_ownerId meetingType)
                                         (bk_slotStart b) (bk_slotEnd b) (bk_guestEmail b) (bk_guestName b)
                                         (mt_requiresNda meetingType))
                         in case releaseHold d' bus1 now eid2 (cbp_holdId dat) ReasonConverted of
                              (released, d'', bus2) \<Rightarrow>
                                (json (BookingBody (bk_id b) (bk_slotStart b) (bk_slotEnd b)
                                         (bk_guestName b) (bk_guestEmail b)) 200,
                                 d'', bus2)))))"

section \<open>AvailabilityService\<close>

subsection \<open>Dates, zones and intervals of the calendar library\<close>

text \<open>
  The calendar library is Luxon. A zone gives its offset from UTC in minutes (east
  positive) at every instant, so a zone with daylight saving time has two offsets:
  \<open>zone_offset env z t\<close> is \<open>zone.offset(t)\<close> of the zone named \<open>z\<close>, \<open>zone_known env z\<close> says
  that \<open>z\<close> names a zone, and \<open>system_zone\<close> is the default zone of the process, in which
  a date is read when no zone is given. A \<open>DateTime\<close> is its instant \<open>ts\<close> together with
  the offset \<open>o\<close> under which its calendar fields \<open>c\<close> were computed; the fields are those
  of the UTC date of \<open>ts + o\<close> minutes. The zone of a \<open>DateTime\<close> is passed next to it as its
  offset function.
\<close>

record clock_env =
  zone_offset :: "string \<Rightarrow> instant \<Rightarrow> int"
  zone_known :: "string \<Rightarrow> bool"
  system_zone :: string

record date_time =
  dt_ts :: instant
  dt_o :: int

definition MS_PER_MINUTE :: int where
  "MS_PER_MINUTE = 60 * 1000"

definition MS_PER_DAY :: int where
  "MS_PER_DAY = 24 * 60 * 60 * 1000"

text \<open>
  \<open>objToLocalTS(inst.c)\<close>: the calendar fields read as a UTC time; and the day number of
  the fields \<open>year\<close>, \<open>month\<close>, \<open>day\<close>.
\<close>

definition local_ts :: "date_time \<Rightarrow> int" where
  "local_ts dt = dt_ts dt + dt_o dt * MS_PER_MINUTE"

definition local_day :: "date_time \<Rightarrow> date" where
  "local_day dt = local_ts dt div MS_PER_DAY"

text \<open>
  \<open>fixOffset(localTS, o, tz)\<close> finds the instant of a local time, \<open>o1\<close> being the offset
  guessed. A local time that the zone skips (the hour after the clocks go forward) is
  moved forward by the width of the gap.
\<close>

definition fixOffset :: "(instant \<Rightarrow> int) \<Rightarrow> int \<Rightarrow> int \<Rightarrow> instant \<times> int" where
  "fixOffset tz localTS o1 =
     (let utcGuess = localTS - o1 * MS_PER_MINUTE;
          o2 = tz utcGuess
      in if o1 = o2 then (utcGuess, o1)
         else
           (let utcGuess2 = utcGuess - (o2 - o1) * MS_PER_MINUTE;
                o3 = tz utcGuess2
            in if o2 = o3 then (utcGuess2, o2)
               else (localTS - min o2 o3 * MS_PER_MINUTE, max o2 o3)))"

text \<open>
  \<open>clone(inst, {ts, o})\<close>: with the instant unchanged the fields and the offset are kept,
  otherwise the offset is read from the zone at the new instant.
\<close>

definition clone :: "(instant \<Rightarrow> int) \<Rightarrow> date_time \<Rightarrow> instant \<Rightarrow> date_time" where
  "clone tz inst ts = (if ts = dt_ts inst then inst else \<lparr>dt_ts = ts, dt_o = tz ts\<rparr>)"

text \<open>
  \<open>DateTime.fromISO(date, {zone})\<close> and \<open>DateTime.fromSQL(date)\<close> of a date without a time:
  midnight of the day in the zone, the offset guessed being the offset of the zone now.
\<close>

definition fromISO :: "(instant \<Rightarrow> int) \<Rightarrow> instant \<Rightarrow> date \<Rightarrow> date_time" where
  "fromISO tz now day =
     (case fixOffset tz (day * MS_PER_DAY) (tz now) of (ts, o1) \<Rightarrow> \<lparr>dt_ts = ts, dt_o = o1\<rparr>)"

text \<open>
  \<open>inst.set({hour, minute, second: 0, millisecond: 0})\<close> and \<open>inst.set({hour, minute})\<close>,
  which keeps the seconds and milliseconds of \<open>inst\<close>: the fields are replaced, not
  checked against their ranges, and read in the zone again.
\<close>

definition set_hour_minute :: "(instant \<Rightarrow> int) \<Rightarrow> date_time \<Rightarrow> int \<Rightarrow> int \<Rightarrow> date_time" where
  "set_hour_minute tz inst h m =
     clone tz inst
       (fst (fixOffset tz (local_day inst * MS_PER_DAY + h * 60 * MS_PER_MINUTE + m * MS_PER_MINUTE)
               (dt_o inst)))"

definition set_hour_minute_only :: "(instant \<Rightarrow> int) \<Rightarrow> date_time \<Rightarrow> int \<Rightarrow> int \<Rightarrow> date_time" where
  "set_hour_minute_only tz inst h m =
     clone tz inst
       (fst (fixOffset tz (local_day inst * MS_PER_DAY + h * 60 * MS_PER_MINUTE + m * MS_PER_MINUTE +
                            local_ts inst mod MS_PER_MINUTE)
               (dt_o inst)))"

text \<open>
  \<open>inst.plus({days: n})\<close> moves the calendar fields and reads them in the zone again;
  \<open>inst.plus({minutes: n})\<close>, \<open>inst.minus({minutes: n})\<close> and \<open>inst.minus(1)\<close> add to the
  instant.
\<close>

definition plus_days :: "(instant \<Rightarrow> int) \<Rightarrow> date_time \<Rightarrow> int \<Rightarrow> date_time" where
  "plus_days tz inst n =
     clone tz inst (fst (fixOffset tz (local_ts inst + n * MS_PER_DAY) (dt_o inst)))"

definition plus_millis :: "(instant \<Rightarrow> int) \<Rightarrow> date_time \<Rightarrow> int \<Rightarrow> date_time" where
  "plus_millis tz inst k =
     clone tz inst (fst (fixOffset tz (local_ts inst) (dt_o inst)) + k)"

definition plus_minutes :: "(instant \<Rightarrow> int) \<Rightarrow> date_time \<Rightarrow> int \<Rightarrow> date_time" where
  "plus_minutes tz inst n = plus_millis tz inst (n * MS_PER_MINUTE)"

definition minus_minutes :: "(instant \<Rightarrow> int) \<Rightarrow> date_time \<Rightarrow> int \<Rightarrow> date_time" where
  "minus_minutes tz inst n = plus_millis tz inst (- (n * MS_PER_MINUTE))"

text \<open>\<open>inst.startOf('day')\<close> and \<open>inst.endOf('day')\<close>, which is \<open>plus({days: 1}).startOf('day').minus(1)\<close>.\<close>

definition startOf_day :: "(instant \<Rightarrow> int) \<Rightarrow> date_time \<Rightarrow> date_time" where
  "startOf_day tz inst = set_hour_minute tz inst 0 0"

definition endOf_day :: "(instant \<Rightarrow> int) \<Rightarrow> date_time \<Rightarrow> date_time" where
  "endOf_day tz inst = plus_millis tz (startOf_day tz (plus_days tz inst 1)) (- 1)"

text \<open>The civil date of a day number in the proleptic Gregorian calendar: year, month, day.\<close>

definition civil_from_days :: "date \<Rightarrow> int \<times> int \<times> int" where
  "civil_from_days days =
     (let z = days + 719468;
          era = z div 146097;
          doe = z mod 146097;
          yoe = (doe - doe div 1460 + doe div 36524 - doe div 146096) div 365;
          doy = doe - (365 * yoe + yoe div 4 - yoe div 100);
          mp = (5 * doy + 2) div 153;
          dd = doy - (153 * mp + 2) div 5 + 1;
          mm = (if mp < 10 then mp + 3 else mp - 9);
          yy = yoe + era * 400 + (if mm \<le> 2 then 1 else 0)
      in (yy, mm, dd))"

definition year_of :: "date \<Rightarrow> int" where
  "year_of d = fst (civil_from_days d)"

definition month_of :: "date \<Rightarrow> int" where
  "month_of d = fst (snd (civil_from_days d))"

definition day_of :: "date \<Rightarrow> int" where
  "day_of d = snd (snd (civil_from_days d))"

text \<open>\<open>DateTime.weekday\<close>: 1 is Monday and 7 is Sunday; 1970-01-01 was a Thursday.\<close>

definition weekday :: "date \<Rightarrow> int" where
  "weekday d = (d + 3) mod 7 + 1"

text \<open>
  \<open>Interval.fromDateTimes(s1, e1).overlaps(Interval.fromDateTimes(s2, e2))\<close>: an interval
  whose end is before its start is invalid and overlaps nothing.
\<close>

definition interval_overlaps :: "instant \<Rightarrow> instant \<Rightarrow> instant \<Rightarrow> instant \<Rightarrow> bool" where
  "interval_overlaps s1 e1 s2 e2 = (s1 \<le> e1 \<and> s2 \<le> e2 \<and> e1 > s2 \<and> s1 < e2)"

subsection \<open>The queries\<close>

definition getHostTimezone :: "db \<Rightarrow> uuid \<Rightarrow> string" where
  "getHostTimezone d userId =
     (case first_row (filter (\<lambda>u. u_id u = userId) (users d)) of
        Some u \<Rightarrow> if u_timezone u = [] then ''UTC'' else u_timezone u
      | None \<Rightarrow> ''UTC'')"

definition getAvailabilityRules :: "db \<Rightarrow> uuid \<Rightarrow> uuid \<Rightarrow> availability_rule list" where
  "getAvailabilityRules d userId meetingTypeId =
     filter (\<lambda>r. ar_userId r = userId \<and> ar_isActive r \<and>
                 (ar_meetingTypeId r = None \<or> ar_meetingTypeId r = Some meetingTypeId))
       (availabilityRules d)"

text \<open>
  The \<open>while\<close> loop inside the filter of \<open>getBlackoutDates\<close>, over the days from \<open>start\<close> to
  \<open>end\<close>. It steps by a calendar day, read in the zone again; the result is \<open>None\<close> when it
  does not return.
\<close>

partial_function (option) any_day_matches ::
  "(instant \<Rightarrow> int) \<Rightarrow> date_time \<Rightarrow> date_time \<Rightarrow> int \<Rightarrow> int \<Rightarrow> bool option" where
  "any_day_matches tz current end month day =
     (if dt_ts current \<le> dt_ts end
      then (if month_of (local_day current) = month \<and> day_of (local_day current) = day then Some True
            else any_day_matches tz (plus_days tz current 1) end month day)
      else Some False)"

declare any_day_matches.simps [code]

text \<open>The \<open>filter\<close> of \<open>getBlackoutDates\<close> over the rows that the query returned.\<close>

fun filter_blackouts ::
  "(instant \<Rightarrow> int) \<Rightarrow> instant \<Rightarrow> date_time \<Rightarrow> date_time \<Rightarrow> blackout_date list \<Rightarrow> blackout_date list option" where
  "filter_blackouts tz now start end [] = Some []"
| "filter_blackouts tz now start end (blackout # rest) =
     (case (if \<not> bd_isRecurringYearly blackout then Some True
            else any_day_matches tz start end
                   (month_of (local_day (fromISO tz now (bd_blackoutDate blackout))))
                   (day_of (local_day (fromISO tz now (bd_blackoutDate blackout))))) of
        None \<Rightarrow> None
      | Some keep \<Rightarrow>
          (case filter_blackouts tz now start end rest of
             None \<Rightarrow> None
           | Some kept \<Rightarrow> Some (if keep then blackout # kept else kept)))"

definition getBlackoutDates ::
  "clock_env \<Rightarrow> db \<Rightarrow> instant \<Rightarrow> uuid \<Rightarrow> date \<Rightarrow> date \<Rightarrow> blackout_date list option" where
  "getBlackoutDates env d now userId startDate endDate =
     (let tz = zone_offset env (system_zone env);
          start = fromISO tz now startDate;
          end = fromISO tz now endDate;
          blackouts = filter (\<lambda>b. bd_userId b = userId \<and>
                                  ((startDate \<le> bd_blackoutDate b \<and> bd_blackoutDate b \<le> endDate) \<or>
                                   bd_isRecurringYearly b))
                        (blackoutDates d)
      in filter_blackouts tz now start end blackouts)"

text \<open>
  \<open>getExistingSlots\<close>: the window runs from the start of the first day to the end of
  the last day (23:59:59.999), both read in the default zone.
\<close>

definition getExistingSlots ::
  "clock_env \<Rightarrow> db \<Rightarrow> instant \<Rightarrow> uuid \<Rightarrow> date \<Rightarrow> date \<Rightarrow> (instant \<times> instant) list" where
  "getExistingSlots env d now meetingTypeId startDate endDate =
     (let tz = zone_offset env (system_zone env);
          startDateTime = dt_ts (startOf_day tz (fromISO tz now startDate));
          endDateTime = dt_ts (endOf_day tz (fromISO tz now endDate));
          activeHolds = map (\<lambda>h. (sh_slotStart h, sh_slotEnd h))
                          (filter (\<lambda>h. sh_meetingTypeId h = meetingTypeId \<and> sh_status h = HoldActive \<and>
                                        sh_slotStart h \<ge> startDateTime \<and> sh_slotEnd h \<le> endDateTime)
                             (slotHolds d));
          confirmedBookings = map (\<lambda>b. (bk_slotStart b, bk_slotEnd b))
                          (filter (\<lambda>b. bk_meetingTypeId b = meetingTypeId \<and> bk_status b = BookingConfirmed \<and>
                                        bk_slotStart b \<ge> startDateTime \<and> bk_slotEnd b \<le> endDateTime)
                             (bookings d))
      in activeHolds @ confirmedBookings)"

subsection \<open>Slot generation\<close>

text \<open>
  A slot of the response: \<open>start\<close> and \<open>end\<close> are the instants, which the code renders as
  ISO strings in the guest's zone.
\<close>

record available_slot =
  as_start :: instant
  as_end :: instant
  as_available :: bool

datatype avail_error = MeetingTypeNotFound | TypeError

text \<open>
  \<open>matchesDate\<close>: the date of the blackout is read in the default zone (\<open>sys\<close>), \<open>date\<close> is
  the day of the loop in the host's zone.
\<close>

definition matches_date :: "(instant \<Rightarrow> int) \<Rightarrow> instant \<Rightarrow> blackout_date \<Rightarrow> date_time \<Rightarrow> bool" where
  "matches_date sys now blackout date =
     (let blackoutDate = fromISO sys now (bd_blackoutDate blackout)
      in month_of (local_day blackoutDate) = month_of (local_day date) \<and>
         day_of (local_day blackoutDate) = day_of (local_day date) \<and>
         (bd_isRecurringYearly blackout \<or> year_of (local_day blackoutDate) = year_of (local_day date)))"

text \<open>
  \<open>hasPartialBlackout\<close>: \<open>some\<close> stops at the first blackout that overlaps. A blackout
  with a start time and no end time makes \<open>split\<close> throw a TypeError.
\<close>

fun hasPartialBlackout ::
  "(instant \<Rightarrow> int) \<Rightarrow> (instant \<Rightarrow> int) \<Rightarrow> instant \<Rightarrow> date_time \<Rightarrow> date_time \<Rightarrow> blackout_date list
     \<Rightarrow> date_time \<Rightarrow> avail_error + bool" where
  "hasPartialBlackout tz sys now slotStart slotEnd [] date = Inr False"
| "hasPartialBlackout tz sys now slotStart slotEnd (blackout # rest) date =
     (case bd_startTime blackout of
        None \<Rightarrow> hasPartialBlackout tz sys now slotStart slotEnd rest date
      | Some st \<Rightarrow>
          if \<not> matches_date sys now blackout date
          then hasPartialBlackout tz sys now slotStart slotEnd rest date
          else
            (case bd_endTime blackout of
               None \<Rightarrow> Inl TypeError
             | Some et \<Rightarrow>
                 if interval_overlaps (dt_ts slotStart) (dt_ts slotEnd)
                      (dt_ts (set_hour_minute_only tz date (tod_hour st) (tod_minute st)))
                      (dt_ts (set_hour_minute_only tz date (tod_hour et) (tod_minute et)))
                 then Inr True
                 else hasPartialBlackout tz sys now slotStart slotEnd rest date))"

definition hasConflict :: "date_time \<Rightarrow> date_time \<Rightarrow> (instant \<times> instant) list \<Rightarrow> bool" where
  "hasConflict bufferStart bufferEnd existingSlots =
     (\<exists>existing \<in> set existingSlots.
        interval_overlaps (dt_ts bufferStart) (dt_ts bufferEnd) (fst existing) (snd existing))"

text \<open>
  The \<open>while\<close> loop of \<open>generateSlotsForRule\<close>, with the slots pushed so far. It steps by
  the duration, so it does not return when the duration is not positive and the first
  candidate fits: the result is \<open>None\<close> then.
\<close>

partial_function (option) slots_loop ::
  "(instant \<Rightarrow> int) \<Rightarrow> (instant \<Rightarrow> int) \<Rightarrow> instant \<Rightarrow> date_time \<Rightarrow> meeting_type \<Rightarrow> blackout_date list
     \<Rightarrow> (instant \<times> instant) list \<Rightarrow> instant \<Rightarrow> date_time \<Rightarrow> date_time \<Rightarrow> available_slot list
     \<Rightarrow> (avail_error + available_slot list) option" where
  "slots_loop tz sys now date meetingType blackouts existingSlots minBookingTime ruleEnd slotStart slots =
     (if dt_ts (plus_minutes tz slotStart (mt_durationMinutes meetingType)) \<le> dt_ts ruleEnd
      then
        (let slotEnd = plus_minutes tz slotStart (mt_durationMinutes meetingType);
             bufferStart = minus_minutes tz slotStart (mt_bufferBeforeMinutes meetingType);
             bufferEnd = plus_minutes tz slotEnd (mt_bufferAfterMinutes meetingType)
         in if dt_ts slotStart > minBookingTime
            then
              (case hasPartialBlackout tz sys now slotStart slotEnd blackouts date of
                 Inl e \<Rightarrow> Some (Inl e)
               | Inr hasBlackout \<Rightarrow>
                   slots_loop tz sys now date meetingType blackouts existingSlots minBookingTime ruleEnd
                     (plus_minutes tz slotStart (mt_durationMinutes meetingType))
                     (slots @ [\<lparr>as_start = dt_ts slotStart, as_end = dt_ts slotEnd,
                                as_available = (\<not> hasBlackout \<and> \<not> hasConflict bufferStart bufferEnd existingSlots)\<rparr>]))
            else
              slots_loop tz sys now date meetingType blackouts existingSlots minBookingTime ruleEnd
                (plus_minutes tz slotStart (mt_durationMinutes meetingType)) slots)
      else Some (Inr slots))"

declare slots_loop.simps [code]

definition generateSlotsForRule ::
  "(instant \<Rightarrow> int) \<Rightarrow> (instant \<Rightarrow> int) \<Rightarrow> instant \<Rightarrow> date_time \<Rightarrow> availability_rule \<Rightarrow> meeting_type
     \<Rightarrow> blackout_date list \<Rightarrow> (instant \<times> instant) list \<Rightarrow> instant
     \<Rightarrow> (avail_error + available_slot list) option" where
  "generateSlotsForRule tz sys now date rule meetingType blackouts existingSlots minBookingTime =
     slots_loop tz sys now date meetingType blackouts existingSlots minBookingTime
       (set_hour_minute tz date (tod_hour (ar_endTime rule)) (tod_minute (ar_endTime rule)))
       (set_hour_minute tz date (tod_hour (ar_startTime rule)) (tod_minute (ar_startTime rule)))
       []"

text \<open>The \<open>for\<close> loop over the rules of a day: the slots of each rule are pushed in turn.\<close>

fun rules_loop ::
  "(instant \<Rightarrow> int) \<Rightarrow> (instant \<Rightarrow> int) \<Rightarrow> instant \<Rightarrow> date_time \<Rightarrow> meeting_type \<Rightarrow> blackout_date list
     \<Rightarrow> (instant \<times> instant) list \<Rightarrow> instant \<Rightarrow> availability_rule list \<Rightarrow> available_slot list
     \<Rightarrow> (avail_error + available_slot list) option" where
  "rules_loop tz sys now date meetingType blackouts existingSlots minBookingTime [] slots = Some (Inr slots)"
| "rules_loop tz sys now date meetingType blackouts existingSlots minBookingTime (rule # rest) slots =
     (case generateSlotsForRule tz sys now date rule meetingType blackouts existingSlots minBookingTime of
        None \<Rightarrow> None
      | Some (Inl e) \<Rightarrow> Some (Inl e)
      | Some (Inr ruleSlots) \<Rightarrow>
          rules_loop tz sys now date meetingType blackouts existingSlots minBookingTime rest (slots @ ruleSlots))"

text \<open>
  The rules of a day: the dates of a rule are read in the default zone, the day of the
  loop is in the host's zone.
\<close>

definition dayRules_of ::
  "(instant \<Rightarrow> int) \<Rightarrow> instant \<Rightarrow> availability_rule list \<Rightarrow> date_time \<Rightarrow> availability_rule list" where
  "dayRules_of sys now rules currentDate =
     filter (\<lambda>rule.
        if dt_ts currentDate < dt_ts (fromISO sys now (ar_effectiveFrom rule)) then False
        else if (case ar_effectiveUntil rule of
                   Some u \<Rightarrow> dt_ts currentDate > dt_ts (fromISO sys now u)
                 | None \<Rightarrow> False)
        then False
        else ar_dayOfWeek rule = weekday (local_day currentDate) mod 7) rules"

definition isFullDayBlackout :: "(instant \<Rightarrow> int) \<Rightarrow> instant \<Rightarrow> blackout_date list \<Rightarrow> date_time \<Rightarrow> bool" where
  "isFullDayBlackout sys now blackouts currentDate =
     (\<exists>blackout \<in> set blackouts. matches_date sys now blackout currentDate \<and> bd_startTime blackout = None)"

text \<open>
  The \<open>while\<close> loop of \<open>generateSlots\<close> over the days of the window. It steps by a calendar
  day, read in the host's zone again; the result is \<open>None\<close> when it does not return.
\<close>

partial_function (option) days_loop ::
  "(instant \<Rightarrow> int) \<Rightarrow> (instant \<Rightarrow> int) \<Rightarrow> instant \<Rightarrow> meeting_type \<Rightarrow> availability_rule list
     \<Rightarrow> blackout_date list \<Rightarrow> (instant \<times> instant) list \<Rightarrow> instant \<Rightarrow> date_time \<Rightarrow> date_time
     \<Rightarrow> available_slot list \<Rightarrow> (avail_error + available_slot list) option" where
  "days_loop tz sys now meetingType rules blackouts existingSlots minBookingTime lastDate currentDate slots =
     (if dt_ts currentDate \<le> dt_ts lastDate
      then
        (if \<not> isFullDayBlackout sys now blackouts currentDate
         then
           (case rules_loop tz sys now currentDate meetingType blackouts existingSlots minBookingTime
                   (dayRules_of sys now rules currentDate) slots of
              None \<Rightarrow> None
            | Some (Inl e) \<Rightarrow> Some (Inl e)
            | Some (Inr slots') \<Rightarrow>
                days_loop tz sys now meetingType rules blackouts existingSlots minBookingTime lastDate
                  (plus_days tz currentDate 1) slots')
         else
           days_loop tz sys now meetingType rules blackouts existingSlots minBookingTime lastDate
             (plus_days tz currentDate 1) slots)
      else Some (Inr slots))"

declare days_loop.simps [code]

definition MIN_LEAD_MS :: int where
  "MIN_LEAD_MS = 2 * 60 * 60 * 1000"

text \<open>
  \<open>generateSlots\<close>. With a host zone that the library does not know, the two dates are
  invalid, their comparison is false and the loop is not entered.
\<close>

definition generateSlots ::
  "clock_env \<Rightarrow> instant \<Rightarrow> meeting_type \<Rightarrow> availability_rule list \<Rightarrow> blackout_date list
     \<Rightarrow> (instant \<times> instant) list \<Rightarrow> date \<Rightarrow> date \<Rightarrow> string \<Rightarrow> string
     \<Rightarrow> (avail_error + available_slot list) option" where
  "generateSlots env now meetingType rules blackouts existingSlots startDate endDate hostTimezone guestTimezone =
     (if \<not> zone_known env hostTimezone then Some (Inr [])
      else
        days_loop (zone_offset env hostTimezone) (zone_offset env (system_zone env)) now
          meetingType rules blackouts existingSlots (now + MIN_LEAD_MS)
          (fromISO (zone_offset env hostTimezone) now endDate)
          (fromISO (zone_offset env hostTimezone) now startDate) [])"

definition getAvailableSlots ::
  "clock_env \<Rightarrow> db \<Rightarrow> instant \<Rightarrow> uuid \<Rightarrow> date \<Rightarrow> date \<Rightarrow> string
     \<Rightarrow> (avail_error + available_slot list) option" where
  "getAvailableSlots env d now meetingTypeId startDate endDate guestTimezone =
     (case first_row (filter (\<lambda>m. mt_id m = meetingTypeId \<and> mt_isActive m) (meetingTypes d)) of
        None \<Rightarrow> Some (Inl MeetingTypeNotFound)
      | Some meetingType \<Rightarrow>
          (case getBlackoutDates env d now (mt_ownerId meetingType) startDate endDate of
             None \<Rightarrow> None
           | Some blackouts \<Rightarrow>
               generateSlots env now meetingType
                 (getAvailabilityRules d (mt_ownerId meetingType) meetingTypeId)
                 blackouts
                 (getExistingSlots env d now meetingTypeId startDate endDate)
                 startDate endDate (getHostTimezone d (mt_ownerId meetingType)) guestTimezone))"

section \<open>Reachable database states\<close>

text \<open>
  The database starts with no holds, bookings, documents or webhook records; users,
  meeting types, availability rules and blackout dates are maintained by the
  administrative routes and may hold anything and change at any time. Every other step
  is a call of one of the operations above.
\<close>

inductive reachable :: "db \<Rightarrow> bool" where
  r_init: "slotHolds d = [] \<Longrightarrow> bookings d = [] \<Longrightarrow> documents d = [] \<Longrightarrow> processedWebhooks d = []
     \<Longrightarrow> reachable d"
| r_admin: "reachable d \<Longrightarrow>
     reachable (d\<lparr>users := us, meetingTypes := ms, availabilityRules := rs, blackoutDates := bs\<rparr>)"
| r_createHold: "reachable d \<Longrightarrow> reachable (snd (createHold d now newId p))"
| r_releaseHold: "reachable d \<Longrightarrow> reachable (fst (snd (releaseHold d bus now eid holdId reason)))"
| r_expireHolds: "reachable d \<Longrightarrow> reachable (fst (snd (expireHolds d bus now eids)))"
| r_extendHold: "reachable d \<Longrightarrow> reachable (snd (extendHold d now holdId))"
| r_confirmBooking: "reachable d \<Longrightarrow> reachable (snd (confirmBooking d now bookingId cp))"
| r_cancelBooking: "reachable d \<Longrightarrow>
     reachable (fst (snd (cancelBooking d bus now eid bookingId canceledBy why)))"
| r_markAsCompleted: "reachable d \<Longrightarrow> reachable (snd (markAsCompleted d bookingId))"
| r_markAsNoShow: "reachable d \<Longrightarrow> reachable (snd (markAsNoShow d bookingId))"
| r_createNda: "reachable d \<Longrightarrow>
     reachable (fst (snd (createNda d bus now docId eid envelope holdId signerEmail signerName)))"
| r_updateDocumentStatus: "reachable d \<Longrightarrow>
     reachable (snd (updateDocumentStatus d documentId status signedAt signedStorageUrl))"
| r_post_signwell: "reachable d \<Longrightarrow>
     reachable (fst (snd (post_signwell env d bus now eid failure signature rawBody)))"

text \<open>
  \<open>evolves d d'\<close>: the state \<open>d'\<close> is reached from \<open>d\<close> by any number of these steps (a
  request to a public route is one or two of them). A row of the holds table is never
  deleted, and no step changes its id or its idempotency key: \<open>hold_ident\<close> is that pair.
\<close>

definition hold_ident :: "slot_hold \<Rightarrow> uuid \<times> uuid" where
  "hold_ident h = (sh_id h, sh_idempotencyKey h)"

inductive evolves :: "db \<Rightarrow> db \<Rightarrow> bool" where
  e_refl: "evolves d d"
| e_admin: "evolves d d1 \<Longrightarrow>
     evolves d (d1\<lparr>users := us, meetingTypes := ms, availabilityRules := rs, blackoutDates := bs\<rparr>)"
| e_createHold: "evolves d d1 \<Longrightarrow> evolves d (snd (createHold d1 now newId p))"
| e_releaseHold: "evolves d d1 \<Longrightarrow> evolves d (fst (snd (releaseHold d1 bus now eid holdId reason)))"
| e_expireHolds: "evolves d d1 \<Longrightarrow> evolves d (fst (snd (expireHolds d1 bus now eids)))"
| e_extendHold: "evolves d d1 \<Longrightarrow> evolves d (snd (extendHold d1 now holdId))"
| e_confirmBooking: "evolves d d1 \<Longrightarrow> evolves d (snd (confirmBooking d1 now bookingId cp))"
| e_cancelBooking: "evolves d d1 \<Longrightarrow>
     evolves d (fst (snd (cancelBooking d1 bus now eid bookingId canceledBy why)))"
| e_markAsCompleted: "evolves d d1 \<Longrightarrow> evolves d (snd (markAsCompleted d1 bookingId))"
| e_markAsNoShow: "evolves d d1 \<Longrightarrow> evolves d (snd (markAsNoShow d1 bookingId))"
| e_createNda: "evolves d d1 \<Longrightarrow>
     evolves d (fst (snd (createNda d1 bus now docId eid envelope holdId signerEmail signerName)))"
| e_updateDocumentStatus: "evolves d d1 \<Longrightarrow>
     evolves d (snd (updateDocumentStatus d1 documentId status signedAt signedStorageUrl))"
| e_post_signwell: "evolves d d1 \<Longrightarrow>
     evolves d (fst (snd (post_signwell env d1 bus now eid failure signature rawBody)))"

section \<open>The exclusion invariants\<close>

text \<open>
  Two holds are compatible when, both being active on the same meeting type, their
  half-open intervals are disjoint; two bookings likewise when both are confirmed.
  The invariant asks it of every two distinct rows of each table.
\<close>

definition hold_compatible :: "slot_hold \<Rightarrow> slot_hold \<Rightarrow> bool" where
  "hold_compatible g h =
     (sh_status g = HoldActive \<and> sh_status h = HoldActive \<and> sh_meetingTypeId g = sh_meetingTypeId h
        \<longrightarrow> {sh_slotStart g ..< sh_slotEnd g} \<inter> {sh_slotStart h ..< sh_slotEnd h} = {})"

definition booking_compatible :: "booking \<Rightarrow> booking \<Rightarrow> bool" where
  "booking_compatible b c =
     (bk_status b = BookingConfirmed \<and> bk_status c = BookingConfirmed \<and> bk_meetingTypeId b = bk_meetingTypeId c
        \<longrightarrow> {bk_slotStart b ..< bk_slotEnd b} \<inter> {bk_slotStart c ..< bk_slotEnd c} = {})"

definition active_holds_disjoint :: "db \<Rightarrow> bool" where
  "active_holds_disjoint d =
     (\<forall>i < length (slotHolds d). \<forall>j < length (slotHolds d).
        i \<noteq> j \<longrightarrow> hold_compatible (slotHolds d ! i) (slotHolds d ! j))"

definition confirmed_bookings_disjoint :: "db \<Rightarrow> bool" where
  "confirmed_bookings_disjoint d =
     (\<forall>i < length (bookings d). \<forall>j < length (bookings d).
        i \<noteq> j \<longrightarrow> booking_compatible (bookings d ! i) (bookings d ! j))"

definition exclusion_invariant :: "db \<Rightarrow> bool" where
  "exclusion_invariant d = (active_holds_disjoint d \<and> confirmed_bookings_disjoint d)"

section \<open>What a confirmed booking is made of\<close>

text \<open>
  The row that \<open>confirmBooking\<close> inserts for a hold, and the NDA gate of step 4: a meeting
  type that requires an NDA needs a document of the hold with status \<open>signed\<close>.
\<close>

definition booking_of_hold :: "uuid \<Rightarrow> slot_hold \<Rightarrow> meeting_type \<Rightarrow> confirm_booking_params \<Rightarrow> booking" where
  "booking_of_hold bookingId hold meetingType p =
     \<lparr>bk_id = bookingId, bk_meetingTypeId = sh_meetingTypeId hold,
      bk_hostUserId = mt_ownerId meetingType,
      bk_slotStart = sh_slotStart hold, bk_slotEnd = sh_slotEnd hold,
      bk_guestEmail = sh_heldByEmail hold, bk_guestName = cbp_guestName p,
      bk_guestTimezone = cbp_guestTimezone p, bk_guestNotes = cbp_guestNotes p,
      bk_status = BookingConfirmed, bk_idempotencyKey = cbp_idempotencyKey p,
      bk_fromHoldId = Some (cbp_holdId p)\<rparr>"

definition nda_satisfied :: "db \<Rightarrow> meeting_type \<Rightarrow> uuid \<Rightarrow> bool" where
  "nda_satisfied d m holdId =
     (mt_requiresNda m \<longrightarrow> (\<exists>x \<in> set (documents d). doc_holdId x = Some holdId \<and> doc_status x = DocSigned))"

section \<open>The status sequence of a document\<close>






section \<open>Order of the rules and of the slots\<close>








definition slots_within :: "instant \<Rightarrow> instant \<Rightarrow> available_slot list \<Rightarrow> bool" where
  "slots_within lo hi new = (sorted (map as_start new) \<and> (\<forall>x \<in> set new. lo \<le> as_start x \<and> as_start x < hi))"


section \<open>The occupancy of the specification\<close>

text \<open>
  The occupancy as the specification words it, to be compared with
  \<open>getExistingSlots\<close>: the active holds and confirmed bookings of the meeting type
  whose interval intersects the window of the request (its days in the host's zone)
  expanded by the buffers.
\<close>

definition occupancy_spec ::
  "clock_env \<Rightarrow> db \<Rightarrow> instant \<Rightarrow> meeting_type \<Rightarrow> date \<Rightarrow> date \<Rightarrow> (instant \<times> instant) list" where
  "occupancy_spec env d now meetingType startDate endDate =
     (let tz = zone_offset env (getHostTimezone d (mt_ownerId meetingType));
          lo = dt_ts (fromISO tz now startDate) - mt_bufferBeforeMinutes meetingType * MS_PER_MINUTE;
          hi = dt_ts (plus_days tz (fromISO tz now endDate) 1) +
               mt_bufferAfterMinutes meetingType * MS_PER_MINUTE
      in map (\<lambda>h. (sh_slotStart h, sh_slotEnd h))
           (filter (\<lambda>h. sh_meetingTypeId h = mt_id meetingType \<and> sh_status h = HoldActive \<and>
                         range_overlaps (sh_slotStart h) (sh_slotEnd h) lo hi) (slotHolds d)) @
         map (\<lambda>b. (bk_slotStart b, bk_slotEnd b))
           (filter (\<lambda>b. bk_meetingTypeId b = mt_id meetingType \<and> bk_status b = BookingConfirmed \<and>
                         range_overlaps (bk_slotStart b) (bk_slotEnd b) lo hi) (bookings d)))"

section \<open>Example states\<close>

text \<open>
  A host in UTC with two meeting types, the second of which requires an NDA, and a
  guest who holds Monday 2026-01-05, 09:00 to 09:30 UTC, of the first.
\<close>

definition ex_meetingType :: meeting_type where
  "ex_meetingType =
     \<lparr>mt_id = ''mt-1'', mt_ownerId = ''user-1'', mt_slug = ''intro'', mt_durationMinutes = 30,
      mt_bufferBeforeMinutes = 0, mt_bufferAfterMinutes = 0, mt_requiresNda = False, mt_isActive = True\<rparr>"

definition ex_ndaMeetingType :: meeting_type where
  "ex_ndaMeetingType =
     \<lparr>mt_id = ''mt-2'', mt_ownerId = ''user-1'', mt_slug = ''deal'', mt_durationMinutes = 30,
      mt_bufferBeforeMinutes = 0, mt_bufferAfterMinutes = 0, mt_requiresNda = True, mt_isActive = True\<rparr>"

definition ex_db0 :: db where
  "ex_db0 =
     \<lparr>users = [\<lparr>u_id = ''user-1'', u_timezone = ''UTC''\<rparr>],
      meetingTypes = [ex_meetingType, ex_ndaMeetingType],
      availabilityRules = [], blackoutDates = [],
      slotHolds = [], bookings = [], documents = [], processedWebhooks = []\<rparr>"

definition ex_now :: instant where
  "ex_now = 1767300000000"

definition ex_holdParams :: create_hold_params where
  "ex_holdParams =
     \<lparr>chp_meetingTypeId = ''mt-1'', chp_slotStart = 1767603600000, chp_slotEnd = 1767605400000,
      chp_email = ''Guest@example.com'', chp_name = None, chp_idempotencyKey = ''key-1''\<rparr>"

definition ex_hold1 :: slot_hold where
  "ex_hold1 =
     \<lparr>sh_id = ''hold-1'', sh_meetingTypeId = ''mt-1'', sh_slotStart = 1767603600000,
      sh_slotEnd = 1767605400000, sh_heldByEmail = ''guest@example.com'', sh_heldByName = None,
      sh_status = HoldActive, sh_expiresAt = 1767300900000, sh_idempotencyKey = ''key-1''\<rparr>"

definition ex_db1 :: db where
  "ex_db1 = ex_db0\<lparr>slotHolds := [ex_hold1]\<rparr>"

definition ex_confirmParams :: confirm_booking_params where
  "ex_confirmParams =
     \<lparr>cbp_holdId = ''hold-1'', cbp_guestName = ''Guest'', cbp_guestTimezone = ''UTC'',
      cbp_guestNotes = None, cbp_idempotencyKey = ''ckey-1''\<rparr>"

definition ex_booking1 :: booking where
  "ex_booking1 =
     \<lparr>bk_id = ''booking-1'', bk_meetingTypeId = ''mt-1'', bk_hostUserId = ''user-1'',
      bk_slotStart = 1767603600000, bk_slotEnd = 1767605400000,
      bk_guestEmail = ''guest@example.com'', bk_guestName = ''Guest'', bk_guestTimezone = ''UTC'',
      bk_guestNotes = None, bk_status = BookingConfirmed, bk_idempotencyKey = ''ckey-1'',
      bk_fromHoldId = Some ''hold-1''\<rparr>"

text \<open>The state after the guest has confirmed the hold.\<close>

definition ex_db2 :: db where
  "ex_db2 = ex_db0\<lparr>slotHolds := [ex_hold1\<lparr>sh_status := HoldConverted\<rparr>], bookings := [ex_booking1]\<rparr>"

text \<open>A second guest holds 10:00 to 10:30 of the meeting type that requires an NDA.\<close>

definition ex_hold2 :: slot_hold where
  "ex_hold2 =
     \<lparr>sh_id = ''hold-2'', sh_meetingTypeId = ''mt-2'', sh_slotStart = 1767607200000,
      sh_slotEnd = 1767609000000, sh_heldByEmail = ''other@example.com'', sh_heldByName = None,
      sh_status = HoldActive, sh_expiresAt = 1767300960000, sh_idempotencyKey = ''key-2''\<rparr>"

definition ex_db3 :: db where
  "ex_db3 = ex_db2\<lparr>slotHolds := slotHolds ex_db2 @ [ex_hold2]\<rparr>"

definition ex_document :: document where
  "ex_document =
     \<lparr>doc_id = ''doc-1'', doc_holdId = Some ''hold-2'', doc_bookingId = None, doc_status = DocSigned,
      doc_signerEmail = ''other@example.com'', doc_externalEnvelopeId = Some ''env-1'',
      doc_sentAt = None, doc_signedAt = Some 1767300500000, doc_signedStorageUrl = None\<rparr>"

definition ex_db4 :: db where
  "ex_db4 = ex_db3\<lparr>documents := [ex_document]\<rparr>"

definition ex_confirmParams2 :: confirm_booking_params where
  "ex_confirmParams2 =
     \<lparr>cbp_holdId = ''hold-2'', cbp_guestName = ''Other'', cbp_guestTimezone = ''UTC'',
      cbp_guestNotes = None, cbp_idempotencyKey = ''ckey-2''\<rparr>"

definition ex_booking2 :: booking where
  "ex_booking2 =
     \<lparr>bk_id = ''booking-2'', bk_meetingTypeId = ''mt-2'', bk_hostUserId = ''user-1'',
      bk_slotStart = 1767607200000, bk_slotEnd = 1767609000000,
      bk_guestEmail = ''other@example.com'', bk_guestName = ''Other'', bk_guestTimezone = ''UTC'',
      bk_guestNotes = None, bk_status = BookingConfirmed, bk_idempotencyKey = ''ckey-2'',
      bk_fromHoldId = Some ''hold-2''\<rparr>"


text \<open>A state in which an active hold lies over a confirmed booking of its meeting type.\<close>

definition ex_db5 :: db where
  "ex_db5 = ex_db1\<lparr>bookings := [ex_booking1\<lparr>bk_fromHoldId := None\<rparr>]\<rparr>"








text \<open>The requests of the first guest as the routes receive them, and the events they publish.\<close>

definition ex_holdRequest :: hold_request where
  "ex_holdRequest =
     \<lparr>hq_slotStart = 1767603600000, hq_slotEnd = 1767605400000, hq_email = ''Guest@example.com'',
      hq_name = None, hq_idempotencyKey = ''key-1''\<rparr>"

definition ex_slotHeld :: "uuid \<Rightarrow> instant \<Rightarrow> event" where
  "ex_slotHeld eid t =
     \<lparr>ev_eventId = eid, ev_eventType = ''slot.held'', ev_occurredAt = t,
      ev_data = SlotHeld ''hold-1'' ''mt-1'' 1767603600000 1767605400000 ''Guest@example.com'' 1767300900000\<rparr>"

definition ex_bookingConfirmed :: event where
  "ex_bookingConfirmed =
     \<lparr>ev_eventId = ''event-1'', ev_eventType = ''booking.confirmed'', ev_occurredAt = 1767300000000,
      ev_data = BookingConfirmedEv ''booking-1'' ''mt-1'' ''user-1'' 1767603600000 1767605400000
                  ''guest@example.com'' ''Guest'' False\<rparr>"

text \<open>
  Availability: the server runs in UTC. The zones are UTC, Tokyo (nine hours ahead
  of UTC all year) and New York, five hours behind UTC and four from 2026-03-08 07:00
  UTC to 2026-11-01 06:00 UTC. Rules of the host for Mondays, a hold that straddles
  the midnight at which Monday 2026-01-05 (day 20458) begins, and rules that the
  query returns in and out of order.
\<close>

definition ex_clock :: clock_env where
  "ex_clock =
     \<lparr>zone_offset = (\<lambda>z t. if z = ''Asia/Tokyo'' then 540
                           else if z = ''America/New_York''
                           then (if 1772953200000 \<le> t \<and> t < 1793512800000 then - 240 else - 300)
                           else 0),
      zone_known = (\<lambda>z. z = ''UTC'' \<or> z = ''Asia/Tokyo'' \<or> z = ''America/New_York''),
      system_zone = ''UTC''\<rparr>"

definition ex_rule :: "int \<Rightarrow> int \<Rightarrow> availability_rule" where
  "ex_rule h1 h2 =
     \<lparr>ar_userId = ''user-1'', ar_meetingTypeId = None, ar_dayOfWeek = 1,
      ar_startTime = \<lparr>tod_hour = h1, tod_minute = 0, tod_second = 0\<rparr>,
      ar_endTime = \<lparr>tod_hour = h2, tod_minute = 0, tod_second = 0\<rparr>,
      ar_effectiveFrom = 20454, ar_effectiveUntil = None, ar_isActive = True\<rparr>"

definition ex_straddlingHold :: slot_hold where
  "ex_straddlingHold =
     \<lparr>sh_id = ''hold-3'', sh_meetingTypeId = ''mt-1'', sh_slotStart = 1767570300000,
      sh_slotEnd = 1767572100000, sh_heldByEmail = ''early@example.com'', sh_heldByName = None,
      sh_status = HoldActive, sh_expiresAt = 1767300900000, sh_idempotencyKey = ''key-3''\<rparr>"

definition ex_db8 :: db where
  "ex_db8 = ex_db0\<lparr>availabilityRules := [ex_rule 0 1], slotHolds := [ex_straddlingHold]\<rparr>"



text \<open>
  A host in Tokyo (nine hours ahead of UTC all year) with a rule for Monday 08:00 to
  09:00, and a guest holding Monday 2026-01-05, 08:00 to 08:30 Tokyo time, which is
  23:00 to 23:30 UTC on the Sunday.
\<close>

definition ex_tokyoHold :: slot_hold where
  "ex_tokyoHold =
     \<lparr>sh_id = ''hold-5'', sh_meetingTypeId = ''mt-1'', sh_slotStart = 1767567600000,
      sh_slotEnd = 1767569400000, sh_heldByEmail = ''guest@example.com'', sh_heldByName = None,
      sh_status = HoldActive, sh_expiresAt = 1767300900000, sh_idempotencyKey = ''key-5''\<rparr>"

definition ex_db11 :: db where
  "ex_db11 =
     ex_db0\<lparr>users := [\<lparr>u_id = ''user-1'', u_timezone = ''Asia/Tokyo''\<rparr>],
            availabilityRules := [ex_rule 8 9], slotHolds := [ex_tokyoHold]\<rparr>"



text \<open>The first state with its hold expired by the sweep.\<close>

definition ex_db12 :: db where
  "ex_db12 = ex_db0\<lparr>slotHolds := [ex_hold1\<lparr>sh_status := HoldExpired\<rparr>]\<rparr>"

section \<open>Auxiliary facts about the tables\<close>

lemma first_row_filter_distinct:
  "distinct (map k rows) \<Longrightarrow> h \<in> set rows \<Longrightarrow> first_row (filter (\<lambda>r. k r = k h) rows) = Some h"
  by (induction rows) (auto simp: first_row_def rev_image_eqI)

lemma map_update_where: "(\<And>r. k (f r) = k r) \<Longrightarrow> map k (update_where P f rows) = map k rows"
  by (simp add: update_where_def)

lemma first_row_None: "(first_row rows = None) = (rows = [])"
  by (cases rows) (simp_all add: first_row_def)

lemma first_row_Some_mem: "first_row (filter P rows) = Some r \<Longrightarrow> r \<in> set rows \<and> P r"
  by (induction rows) (auto simp: first_row_def split: if_splits)

lemma createHold_tx_holds:
  "createHold_tx d now newId p = Inr (r, d') \<Longrightarrow>
     d' = d \<or> (\<exists>h. d' = d\<lparr>slotHolds := slotHolds d @ [h]\<rparr> \<and> insert_slotHold d h = Inr d' \<and>
        sh_idempotencyKey h = chp_idempotencyKey p \<and> sh_status h = HoldActive \<and>
        sh_meetingTypeId h = chp_meetingTypeId p \<and> sh_slotStart h = chp_slotStart p \<and> sh_slotEnd h = chp_slotEnd p)"
  unfolding createHold_tx_def insert_slotHold_def
  by (auto split: option.splits if_splits sum.splits simp: Let_def)

lemma createHold_holds:
  "snd (createHold d now newId p) = d \<or>
   (\<exists>h. snd (createHold d now newId p) = d\<lparr>slotHolds := slotHolds d @ [h]\<rparr> \<and>
        insert_slotHold d h = Inr (snd (createHold d now newId p)) \<and>
        sh_idempotencyKey h = chp_idempotencyKey p \<and> sh_status h = HoldActive \<and>
        sh_meetingTypeId h = chp_meetingTypeId p \<and> sh_slotStart h = chp_slotStart p \<and> sh_slotEnd h = chp_slotEnd p)"
proof (cases "createHold_tx d now newId p")
  case (Inl e)
  then show ?thesis by (simp add: createHold_def)
next
  case (Inr rd)
  obtain r d' where rd: "rd = (r, d')" by (cases rd)
  with Inr have tx: "createHold_tx d now newId p = Inr (r, d')" by simp
  then have "snd (createHold d now newId p) = d'" by (simp add: createHold_def)
  with createHold_tx_holds[OF tx] show ?thesis by auto
qed

lemma insert_slotHold_key_fresh:
  "insert_slotHold d h = Inr d' \<Longrightarrow> sh_idempotencyKey h \<notin> set (map sh_idempotencyKey (slotHolds d))"
  unfolding insert_slotHold_def by (auto split: if_splits)

lemma createHold_keys:
  assumes "distinct (map sh_idempotencyKey (slotHolds d))"
  shows "distinct (map sh_idempotencyKey (slotHolds (snd (createHold d now newId p))))"
proof -
  from createHold_holds[of d now newId p] show ?thesis
  proof
    assume "snd (createHold d now newId p) = d"
    with assms show ?thesis by simp
  next
    assume "\<exists>h. snd (createHold d now newId p) = d\<lparr>slotHolds := slotHolds d @ [h]\<rparr> \<and>
        insert_slotHold d h = Inr (snd (createHold d now newId p)) \<and>
        sh_idempotencyKey h = chp_idempotencyKey p \<and> sh_status h = HoldActive \<and>
        sh_meetingTypeId h = chp_meetingTypeId p \<and> sh_slotStart h = chp_slotStart p \<and> sh_slotEnd h = chp_slotEnd p"
    then obtain h where h: "snd (createHold d now newId p) = d\<lparr>slotHolds := slotHolds d @ [h]\<rparr>"
      and ins: "insert_slotHold d h = Inr (snd (createHold d now newId p))" by blast
    from insert_slotHold_key_fresh[OF ins] assms h show ?thesis by simp
  qed
qed

lemma releaseHold_keys:
  "map sh_idempotencyKey (slotHolds (fst (snd (releaseHold d bus now eid holdId reason)))) = map sh_idempotencyKey (slotHolds d)"
  by (simp add: releaseHold_def Let_def map_update_where split: option.splits)

lemma expireHolds_keys:
  "map sh_idempotencyKey (slotHolds (fst (snd (expireHolds d bus now eids)))) = map sh_idempotencyKey (slotHolds d)"
  by (simp add: expireHolds_def Let_def map_update_where)

lemma extendHold_keys:
  "map sh_idempotencyKey (slotHolds (snd (extendHold d now holdId))) = map sh_idempotencyKey (slotHolds d)"
  by (simp add: extendHold_def Let_def map_update_where)

lemma insert_booking_holds: "insert_booking d b = Inr d' \<Longrightarrow> slotHolds d' = slotHolds d"
  unfolding insert_booking_def by (auto split: if_splits)

lemma confirmBooking_tx_keys:
  "confirmBooking_tx d now bookingId cp = Inr (r, d') \<Longrightarrow>
   map sh_idempotencyKey (slotHolds d') = map sh_idempotencyKey (slotHolds d)"
  unfolding confirmBooking_tx_def
  by (auto split: option.splits if_splits sum.splits simp: Let_def map_update_where dest: insert_booking_holds)

lemma confirmBooking_keys:
  "map sh_idempotencyKey (slotHolds (snd (confirmBooking d now bookingId cp))) = map sh_idempotencyKey (slotHolds d)"
  unfolding confirmBooking_def
  by (auto split: sum.splits prod.splits dest: confirmBooking_tx_keys)

lemma cancelBooking_holds:
  "slotHolds (fst (snd (cancelBooking d bus now eid bookingId canceledBy why))) = slotHolds d"
  by (simp add: cancelBooking_def Let_def split: option.splits)

lemma markAsCompleted_holds: "slotHolds (snd (markAsCompleted d bookingId)) = slotHolds d"
  by (simp add: markAsCompleted_def Let_def)

lemma markAsNoShow_holds: "slotHolds (snd (markAsNoShow d bookingId)) = slotHolds d"
  by (simp add: markAsNoShow_def Let_def)

lemma insert_document_holds: "insert_document d x = Inr d' \<Longrightarrow> slotHolds d' = slotHolds d \<and> bookings d' = bookings d"
  unfolding insert_document_def by (auto split: if_splits)

lemma createNda_holds:
  "slotHolds (fst (snd (createNda d bus now docId eid envelope holdId signerEmail signerName))) = slotHolds d"
  unfolding createNda_def
  by (auto split: option.splits if_splits sum.splits prod.splits simp: Let_def dest: insert_document_holds)

lemma updateDocumentStatus_holds:
  "slotHolds (snd (updateDocumentStatus d documentId status signedAt signedStorageUrl)) = slotHolds d"
  by (simp add: updateDocumentStatus_def Let_def)

lemma dispatch_signwell_holds:
  "slotHolds (fst (dispatch_signwell d bus now eid failure body)) = slotHolds d"
  unfolding dispatch_signwell_def
  by (auto split: option.splits if_splits simp: Let_def)

lemma dispatch_signwell_fst_holds:
  "dispatch_signwell d bus now eid failure body = (d', bus', threw) \<Longrightarrow> slotHolds d' = slotHolds d"
  using dispatch_signwell_holds[of d bus now eid failure body] by simp

lemma post_signwell_holds:
  "slotHolds (fst (snd (post_signwell env d bus now eid failure signature rawBody))) = slotHolds d"
  unfolding post_signwell_def
  by (auto split: option.splits if_splits prod.splits simp: Let_def dest!: dispatch_signwell_fst_holds)

lemma reachable_keys_distinct:
  "reachable d \<Longrightarrow> distinct (map sh_idempotencyKey (slotHolds d))"
proof (induction rule: reachable.induct)
  case (r_createHold d now newId p)
  from r_createHold.IH show ?case by (rule createHold_keys)
qed (simp_all add: releaseHold_keys expireHolds_keys extendHold_keys confirmBooking_keys
      cancelBooking_holds markAsCompleted_holds markAsNoShow_holds createNda_holds
      updateDocumentStatus_holds post_signwell_holds)

lemma createHold_existing:
  assumes "distinct (map sh_idempotencyKey (slotHolds d))" "h \<in> set (slotHolds d)"
    "sh_idempotencyKey h = chp_idempotencyKey p"
  shows "createHold d now newId p =
     (Inr (if sh_status h = HoldActive then hold_ok (sh_id h) (sh_expiresAt h)
           else hold_fail ''Previous hold expired''), d)"
proof -
  have "first_row (filter (\<lambda>r. sh_idempotencyKey r = chp_idempotencyKey p) (slotHolds d)) = Some h"
    using first_row_filter_distinct[OF assms(1,2)] assms(3) by simp
  then show ?thesis by (simp add: createHold_def createHold_tx_def)
qed

lemma createHold_ident:
  "\<exists>ys. map hold_ident (slotHolds (snd (createHold d now newId p))) = map hold_ident (slotHolds d) @ ys"
  using createHold_holds[of d now newId p] by auto

lemma releaseHold_ident:
  "map hold_ident (slotHolds (fst (snd (releaseHold d bus now eid holdId reason)))) = map hold_ident (slotHolds d)"
  by (simp add: releaseHold_def Let_def map_update_where hold_ident_def split: option.splits)

lemma expireHolds_ident:
  "map hold_ident (slotHolds (fst (snd (expireHolds d bus now eids)))) = map hold_ident (slotHolds d)"
  by (simp add: expireHolds_def Let_def map_update_where hold_ident_def)

lemma extendHold_ident:
  "map hold_ident (slotHolds (snd (extendHold d now holdId))) = map hold_ident (slotHolds d)"
  by (simp add: extendHold_def Let_def map_update_where hold_ident_def)

lemma confirmBooking_tx_ident:
  "confirmBooking_tx d now bookingId cp = Inr (r, d') \<Longrightarrow>
   map hold_ident (slotHolds d') = map hold_ident (slotHolds d)"
  unfolding confirmBooking_tx_def
  by (auto split: option.splits if_splits sum.splits simp: Let_def map_update_where hold_ident_def
      dest: insert_booking_holds)

lemma confirmBooking_ident:
  "map hold_ident (slotHolds (snd (confirmBooking d now bookingId cp))) = map hold_ident (slotHolds d)"
  unfolding confirmBooking_def
  by (auto split: sum.splits prod.splits dest: confirmBooking_tx_ident)

lemma evolves_ident:
  "evolves d d2 \<Longrightarrow> \<exists>ys. map hold_ident (slotHolds d2) = map hold_ident (slotHolds d) @ ys"
proof (induction rule: evolves.induct)
  case (e_createHold d d1 now newId p)
  then obtain ys where "map hold_ident (slotHolds d1) = map hold_ident (slotHolds d) @ ys" by blast
  moreover from createHold_ident[of d1 now newId p] obtain zs where
    "map hold_ident (slotHolds (snd (createHold d1 now newId p))) = map hold_ident (slotHolds d1) @ zs" by blast
  ultimately show ?case by simp
qed (simp_all add: releaseHold_ident expireHolds_ident extendHold_ident confirmBooking_ident
      cancelBooking_holds markAsCompleted_holds markAsNoShow_holds createNda_holds
      updateDocumentStatus_holds post_signwell_holds)

lemma evolves_keys_distinct:
  "evolves d d2 \<Longrightarrow> distinct (map sh_idempotencyKey (slotHolds d))
     \<Longrightarrow> distinct (map sh_idempotencyKey (slotHolds d2))"
proof (induction rule: evolves.induct)
  case (e_createHold d d1 now newId p)
  then have "distinct (map sh_idempotencyKey (slotHolds d1))" by simp
  then show ?case by (rule createHold_keys)
qed (simp_all add: releaseHold_keys expireHolds_keys extendHold_keys confirmBooking_keys
      cancelBooking_holds markAsCompleted_holds markAsNoShow_holds createNda_holds
      updateDocumentStatus_holds post_signwell_holds)

lemma evolves_hold_kept:
  assumes "evolves d d2" "h \<in> set (slotHolds d)"
  shows "\<exists>h2 \<in> set (slotHolds d2). sh_id h2 = sh_id h \<and> sh_idempotencyKey h2 = sh_idempotencyKey h"
proof -
  from evolves_ident[OF assms(1)] obtain ys where
    e: "map hold_ident (slotHolds d2) = map hold_ident (slotHolds d) @ ys" by blast
  from assms(2) have "hold_ident h \<in> set (map hold_ident (slotHolds d))" by simp
  with e have "hold_ident h \<in> set (map hold_ident (slotHolds d2))" by simp
  then show ?thesis by (auto simp: hold_ident_def)
qed

section \<open>Preservation of the exclusion invariants\<close>

lemma disj_iff: "({a..<b} \<inter> {c..<d} = {}) = (\<not> range_overlaps a b c d)" for a :: int
  unfolding range_overlaps_def by (auto simp: ivl_disj_int) 

lemma pairwise_sorted_wrt:
  assumes "\<And>x y. C x y \<Longrightarrow> C y x"
  shows "(\<forall>i < length xs. \<forall>j < length xs. i \<noteq> j \<longrightarrow> C (xs ! i) (xs ! j)) = sorted_wrt C xs"
proof
  assume "\<forall>i < length xs. \<forall>j < length xs. i \<noteq> j \<longrightarrow> C (xs ! i) (xs ! j)"
  then show "sorted_wrt C xs" by (simp add: sorted_wrt_iff_nth_less)
next
  assume s: "sorted_wrt C xs"
  show "\<forall>i < length xs. \<forall>j < length xs. i \<noteq> j \<longrightarrow> C (xs ! i) (xs ! j)"
  proof (intro allI impI)
    fix i j assume ij: "i < length xs" "j < length xs" "i \<noteq> j"
    then consider "i < j" | "j < i" by linarith
    then show "C (xs ! i) (xs ! j)"
    proof cases
      case 1 with s ij show ?thesis by (simp add: sorted_wrt_iff_nth_less)
    next
      case 2 with s ij have "C (xs ! j) (xs ! i)" by (simp add: sorted_wrt_iff_nth_less)
      then show ?thesis by (rule assms)
    qed
  qed
qed

lemma hold_compatible_sym: "hold_compatible g h \<Longrightarrow> hold_compatible h g"
  unfolding hold_compatible_def by (auto simp: Int_commute)

lemma booking_compatible_sym: "booking_compatible g h \<Longrightarrow> booking_compatible h g"
  unfolding booking_compatible_def by (auto simp: Int_commute)

lemma holds_disjoint_sorted_wrt: "active_holds_disjoint d = sorted_wrt hold_compatible (slotHolds d)"
  unfolding active_holds_disjoint_def by (rule pairwise_sorted_wrt) (rule hold_compatible_sym)

lemma bookings_disjoint_sorted_wrt: "confirmed_bookings_disjoint d = sorted_wrt booking_compatible (bookings d)"
  unfolding confirmed_bookings_disjoint_def by (rule pairwise_sorted_wrt) (rule booking_compatible_sym)

lemma sorted_wrt_update_where:
  assumes "sorted_wrt C rows" "\<And>x y. C x y \<Longrightarrow> C (if P x then f x else x) (if P y then f y else y)"
  shows "sorted_wrt C (update_where P f rows)"
proof -
  have "sorted_wrt (\<lambda>x y. C (if P x then f x else x) (if P y then f y else y)) rows"
    using assms(1) by (rule sorted_wrt_mono_rel[rotated]) (rule assms(2))
  then show ?thesis by (simp add: update_where_def sorted_wrt_map)
qed

lemma hold_compatible_update:
  assumes "\<And>r. sh_meetingTypeId (f r) = sh_meetingTypeId r" "\<And>r. sh_slotStart (f r) = sh_slotStart r"
    "\<And>r. sh_slotEnd (f r) = sh_slotEnd r" "\<And>r. sh_status (f r) = HoldActive \<Longrightarrow> sh_status r = HoldActive"
    "hold_compatible x y"
  shows "hold_compatible (if P x then f x else x) (if P y then f y else y)"
  using assms unfolding hold_compatible_def by (auto split: if_splits)

lemma booking_compatible_update:
  assumes "\<And>r. bk_meetingTypeId (f r) = bk_meetingTypeId r" "\<And>r. bk_slotStart (f r) = bk_slotStart r"
    "\<And>r. bk_slotEnd (f r) = bk_slotEnd r" "\<And>r. bk_status (f r) = BookingConfirmed \<Longrightarrow> bk_status r = BookingConfirmed"
    "booking_compatible x y"
  shows "booking_compatible (if P x then f x else x) (if P y then f y else y)"
  using assms unfolding booking_compatible_def by (auto split: if_splits)

lemma holds_update_status:
  assumes "sorted_wrt hold_compatible rows" "st \<noteq> HoldActive"
  shows "sorted_wrt hold_compatible (update_where P (\<lambda>h. h\<lparr>sh_status := st\<rparr>) rows)"
  using assms(1) by (rule sorted_wrt_update_where) (rule hold_compatible_update, simp_all add: assms(2))

lemma holds_update_expiresAt:
  assumes "sorted_wrt hold_compatible rows"
  shows "sorted_wrt hold_compatible (update_where P (\<lambda>h. h\<lparr>sh_expiresAt := t\<rparr>) rows)"
  using assms(1) by (rule sorted_wrt_update_where) (rule hold_compatible_update, simp_all)

lemma bookings_update_status:
  assumes "sorted_wrt booking_compatible rows" "st \<noteq> BookingConfirmed"
  shows "sorted_wrt booking_compatible (update_where P (\<lambda>h. h\<lparr>bk_status := st\<rparr>) rows)"
  using assms(1) by (rule sorted_wrt_update_where) (rule booking_compatible_update, simp_all add: assms(2))

lemma insert_slotHold_compatible:
  assumes "insert_slotHold d h = Inr d'" "sorted_wrt hold_compatible (slotHolds d)"
  shows "sorted_wrt hold_compatible (slotHolds d') \<and> bookings d' = bookings d"
proof -
  from assms(1) have d': "d' = d\<lparr>slotHolds := slotHolds d @ [h]\<rparr>"
    and nv: "\<not> violates_no_overlapping_active_holds (slotHolds d) h"
    unfolding insert_slotHold_def by (auto split: if_splits)
  have "\<forall>g \<in> set (slotHolds d). hold_compatible g h"
    using nv unfolding violates_no_overlapping_active_holds_def hold_compatible_def
    by (auto simp: disj_iff range_overlaps_def)
  with assms(2) d' show ?thesis by (simp add: sorted_wrt_append)
qed

lemma insert_booking_compatible:
  assumes "insert_booking d b = Inr d'" "sorted_wrt booking_compatible (bookings d)"
  shows "sorted_wrt booking_compatible (bookings d') \<and> slotHolds d' = slotHolds d"
proof -
  from assms(1) have d': "d' = d\<lparr>bookings := bookings d @ [b]\<rparr>"
    and nv: "\<not> violates_no_double_booking (bookings d) b"
    unfolding insert_booking_def by (auto split: if_splits)
  have "\<forall>g \<in> set (bookings d). booking_compatible g b"
    using nv unfolding violates_no_double_booking_def booking_compatible_def
    by (auto simp: disj_iff range_overlaps_def)
  with assms(2) d' show ?thesis by (simp add: sorted_wrt_append)
qed

lemma exclusion_sorted_wrt:
  "exclusion_invariant d = (sorted_wrt hold_compatible (slotHolds d) \<and> sorted_wrt booking_compatible (bookings d))"
  by (simp add: exclusion_invariant_def holds_disjoint_sorted_wrt bookings_disjoint_sorted_wrt)

lemma createHold_excl: assumes "exclusion_invariant d" shows "exclusion_invariant (snd (createHold d now newId p))"
proof -
  from createHold_holds[of d now newId p] show ?thesis
  proof
    assume "snd (createHold d now newId p) = d" with assms show ?thesis by simp
  next
    assume "\<exists>h. snd (createHold d now newId p) = d\<lparr>slotHolds := slotHolds d @ [h]\<rparr> \<and>
        insert_slotHold d h = Inr (snd (createHold d now newId p)) \<and>
        sh_idempotencyKey h = chp_idempotencyKey p \<and> sh_status h = HoldActive \<and>
        sh_meetingTypeId h = chp_meetingTypeId p \<and> sh_slotStart h = chp_slotStart p \<and> sh_slotEnd h = chp_slotEnd p"
    then obtain h where ins: "insert_slotHold d h = Inr (snd (createHold d now newId p))" by blast
    from insert_slotHold_compatible[OF ins] assms show ?thesis by (simp add: exclusion_sorted_wrt)
  qed
qed

lemma releaseHold_excl: "exclusion_invariant d \<Longrightarrow> exclusion_invariant (fst (snd (releaseHold d bus now eid holdId reason)))"
  by (simp add: releaseHold_def Let_def exclusion_sorted_wrt holds_update_status split: option.splits)

lemma expireHolds_excl: "exclusion_invariant d \<Longrightarrow> exclusion_invariant (fst (snd (expireHolds d bus now eids)))"
  by (simp add: expireHolds_def Let_def exclusion_sorted_wrt holds_update_status)

lemma extendHold_excl: "exclusion_invariant d \<Longrightarrow> exclusion_invariant (snd (extendHold d now holdId))"
  by (simp add: extendHold_def Let_def exclusion_sorted_wrt holds_update_expiresAt)

lemma cancelBooking_excl: "exclusion_invariant d \<Longrightarrow> exclusion_invariant (fst (snd (cancelBooking d bus now eid bookingId canceledBy why)))"
  by (simp add: cancelBooking_def Let_def exclusion_sorted_wrt bookings_update_status split: option.splits)

lemma markAsCompleted_excl: "exclusion_invariant d \<Longrightarrow> exclusion_invariant (snd (markAsCompleted d bookingId))"
  by (simp add: markAsCompleted_def Let_def exclusion_sorted_wrt bookings_update_status)

lemma markAsNoShow_excl: "exclusion_invariant d \<Longrightarrow> exclusion_invariant (snd (markAsNoShow d bookingId))"
  by (simp add: markAsNoShow_def Let_def exclusion_sorted_wrt bookings_update_status)

lemma confirmBooking_tx_excl:
  "confirmBooking_tx d now bookingId cp = Inr (r, d') \<Longrightarrow> exclusion_invariant d \<Longrightarrow> exclusion_invariant d'"
  unfolding confirmBooking_tx_def exclusion_sorted_wrt
  by (auto split: option.splits if_splits sum.splits simp: Let_def holds_update_status
      dest!: insert_booking_compatible)

lemma confirmBooking_excl: "exclusion_invariant d \<Longrightarrow> exclusion_invariant (snd (confirmBooking d now bookingId cp))"
  unfolding confirmBooking_def
  by (auto split: sum.splits prod.splits dest: confirmBooking_tx_excl)

lemma insert_document_bookings: "insert_document d x = Inr d' \<Longrightarrow> bookings d' = bookings d"
  unfolding insert_document_def by (auto split: if_splits)

lemma createNda_bookings:
  "bookings (fst (snd (createNda d bus now docId eid envelope holdId signerEmail signerName))) = bookings d"
  unfolding createNda_def
  by (auto split: option.splits if_splits sum.splits prod.splits simp: Let_def dest: insert_document_bookings)

lemma updateDocumentStatus_bookings:
  "bookings (snd (updateDocumentStatus d documentId status signedAt signedStorageUrl)) = bookings d"
  by (simp add: updateDocumentStatus_def Let_def)

lemma dispatch_signwell_bookings:
  "bookings (fst (dispatch_signwell d bus now eid failure body)) = bookings d"
  unfolding dispatch_signwell_def
  by (auto split: option.splits if_splits simp: Let_def)

lemma dispatch_signwell_fst_bookings:
  "dispatch_signwell d bus now eid failure body = (d', bus', threw) \<Longrightarrow> bookings d' = bookings d"
  using dispatch_signwell_bookings[of d bus now eid failure body] by simp

lemma post_signwell_bookings:
  "bookings (fst (snd (post_signwell env d bus now eid failure signature rawBody))) = bookings d"
  unfolding post_signwell_def
  by (auto split: option.splits if_splits prod.splits simp: Let_def dest!: dispatch_signwell_fst_bookings)

lemma reachable_exclusion: "reachable d \<Longrightarrow> exclusion_invariant d"
proof (induction rule: reachable.induct)
  case (r_init d)
  then show ?case by (simp add: exclusion_sorted_wrt)
next
  case (r_admin d us ms rs bs)
  then show ?case by (simp add: exclusion_sorted_wrt)
next
  case (r_createHold d now newId p)
  from r_createHold.IH show ?case by (rule createHold_excl)
next
  case (r_releaseHold d bus now eid holdId reason)
  from r_releaseHold.IH show ?case by (rule releaseHold_excl)
next
  case (r_expireHolds d bus now eids)
  from r_expireHolds.IH show ?case by (rule expireHolds_excl)
next
  case (r_extendHold d now holdId)
  from r_extendHold.IH show ?case by (rule extendHold_excl)
next
  case (r_confirmBooking d now bookingId cp)
  from r_confirmBooking.IH show ?case by (rule confirmBooking_excl)
next
  case (r_cancelBooking d bus now eid bookingId canceledBy why)
  from r_cancelBooking.IH show ?case by (rule cancelBooking_excl)
next
  case (r_markAsCompleted d bookingId)
  from r_markAsCompleted.IH show ?case by (rule markAsCompleted_excl)
next
  case (r_markAsNoShow d bookingId)
  from r_markAsNoShow.IH show ?case by (rule markAsNoShow_excl)
next
  case (r_createNda d bus now docId eid envelope holdId signerEmail signerName)
  then show ?case by (simp add: exclusion_sorted_wrt createNda_holds createNda_bookings)
next
  case (r_updateDocumentStatus d documentId status signedAt signedStorageUrl)
  then show ?case by (simp add: exclusion_sorted_wrt updateDocumentStatus_holds updateDocumentStatus_bookings)
next
  case (r_post_signwell d env bus now eid failure signature rawBody)
  then show ?case by (simp add: exclusion_sorted_wrt post_signwell_holds post_signwell_bookings)
qed

lemma ex_db1_reachable: "reachable ex_db1"
proof -
  have "reachable ex_db0" by (rule r_init) (simp_all add: ex_db0_def)
  then have "reachable (snd (createHold ex_db0 ex_now ''hold-1'' ex_holdParams))" by (rule r_createHold)
  moreover have "snd (createHold ex_db0 ex_now ''hold-1'' ex_holdParams) = ex_db1" by code_simp
  ultimately show ?thesis by simp
qed

section \<open>The cases of confirmBooking\<close>

lemma fresh_key_no_row:
  "\<forall>b \<in> set (bookings d). bk_idempotencyKey b \<noteq> k \<Longrightarrow>
   first_row (filter (\<lambda>b. bk_idempotencyKey b = k) (bookings d)) = None"
  by (simp add: first_row_None filter_empty_conv)

lemma confirmBooking_hold_missing:
  assumes "\<forall>b \<in> set (bookings d). bk_idempotencyKey b \<noteq> cbp_idempotencyKey p"
    "getHold d (cbp_holdId p) = None"
  shows "confirmBooking d now bookingId p = (Inr (booking_fail ''Hold not found''), d)"
  using assms(2) fresh_key_no_row[OF assms(1)]
  by (simp add: confirmBooking_def confirmBooking_tx_def getHold_def)

lemma confirmBooking_hold_inactive:
  assumes "\<forall>b \<in> set (bookings d). bk_idempotencyKey b \<noteq> cbp_idempotencyKey p"
    "getHold d (cbp_holdId p) = Some h" "sh_status h \<noteq> HoldActive"
  shows "confirmBooking d now bookingId p =
           (Inr (booking_fail (''Hold is '' @ hold_status_text (sh_status h))), d)"
  using assms(2,3) fresh_key_no_row[OF assms(1)]
  by (simp add: confirmBooking_def confirmBooking_tx_def getHold_def)

lemma confirmBooking_hold_expired:
  assumes "\<forall>b \<in> set (bookings d). bk_idempotencyKey b \<noteq> cbp_idempotencyKey p"
    "getHold d (cbp_holdId p) = Some h" "sh_status h = HoldActive" "sh_expiresAt h < now"
  shows "confirmBooking d now bookingId p =
           (Inr (booking_fail ''Hold has expired''),
            d\<lparr>slotHolds := update_where (\<lambda>g. sh_id g = cbp_holdId p) (\<lambda>g. g\<lparr>sh_status := HoldExpired\<rparr>)
                              (slotHolds d)\<rparr>)"
  using assms(2,3,4) fresh_key_no_row[OF assms(1)]
  by (simp add: confirmBooking_def confirmBooking_tx_def getHold_def)

lemma signed_doc_row:
  "(first_row (filter (\<lambda>x. doc_holdId x = Some hid \<and> doc_status x = DocSigned) (documents d)) = None)
     = (\<not> (\<exists>x \<in> set (documents d). doc_holdId x = Some hid \<and> doc_status x = DocSigned))"
  by (auto simp: first_row_None filter_empty_conv)

lemma confirmBooking_tx_reaches_insert:
  assumes "\<forall>b \<in> set (bookings d). bk_idempotencyKey b \<noteq> cbp_idempotencyKey p"
    "getHold d (cbp_holdId p) = Some h" "sh_status h = HoldActive" "\<not> sh_expiresAt h < now"
    "first_row (filter (\<lambda>m. mt_id m = sh_meetingTypeId h) (meetingTypes d)) = Some m"
    "nda_satisfied d m (cbp_holdId p)"
  shows "confirmBooking_tx d now bookingId p =
     (case insert_booking d (booking_of_hold bookingId h m p) of
        Inl e \<Rightarrow> Inl e
      | Inr d1 \<Rightarrow> Inr (booking_ok (booking_of_hold bookingId h m p),
          d1\<lparr>slotHolds := update_where (\<lambda>g. sh_id g = cbp_holdId p) (\<lambda>g. g\<lparr>sh_status := HoldConverted\<rparr>) (slotHolds d1),
             documents := update_where (\<lambda>x. doc_holdId x = Some (cbp_holdId p))
                            (\<lambda>x. x\<lparr>doc_bookingId := Some bookingId\<rparr>) (documents d1)\<rparr>))"
  using assms(2-6) fresh_key_no_row[OF assms(1)]
  by (auto simp add: confirmBooking_tx_def getHold_def booking_of_hold_def Let_def nda_satisfied_def signed_doc_row
      split: sum.splits)

lemma confirmBooking_exclusion:
  assumes "\<forall>b \<in> set (bookings d). bk_idempotencyKey b \<noteq> cbp_idempotencyKey p"
    "getHold d (cbp_holdId p) = Some h" "sh_status h = HoldActive" "\<not> sh_expiresAt h < now"
    "first_row (filter (\<lambda>m. mt_id m = sh_meetingTypeId h) (meetingTypes d)) = Some m"
    "nda_satisfied d m (cbp_holdId p)"
    "insert_booking d (booking_of_hold bookingId h m p) = Inl (ExclusionViolation ''no_double_booking'')"
  shows "confirmBooking d now bookingId p = (Inr (booking_fail ''Slot already booked''), d)"
  using confirmBooking_tx_reaches_insert[OF assms(1-6), of bookingId] assms(7)
  by (simp add: confirmBooking_def)

lemma confirmBooking_nda_required:
  assumes "\<forall>b \<in> set (bookings d). bk_idempotencyKey b \<noteq> cbp_idempotencyKey p"
    "getHold d (cbp_holdId p) = Some h" "sh_status h = HoldActive" "\<not> sh_expiresAt h < now"
    "first_row (filter (\<lambda>m. mt_id m = sh_meetingTypeId h) (meetingTypes d)) = Some m"
    "mt_requiresNda m"
    "\<not> (\<exists>x \<in> set (documents d). doc_holdId x = Some (cbp_holdId p) \<and> doc_status x = DocSigned)"
  shows "confirmBooking d now bookingId p = (Inr (booking_fail ''NDA must be signed before booking''), d)"
  using assms(2-6) fresh_key_no_row[OF assms(1)] assms(7)[folded signed_doc_row]
  by (simp add: confirmBooking_def confirmBooking_tx_def getHold_def)

lemma confirmBooking_success:
  assumes "\<forall>b \<in> set (bookings d). bk_idempotencyKey b \<noteq> cbp_idempotencyKey p"
    "getHold d (cbp_holdId p) = Some h" "sh_status h = HoldActive" "\<not> sh_expiresAt h < now"
    "first_row (filter (\<lambda>m. mt_id m = sh_meetingTypeId h) (meetingTypes d)) = Some m"
    "nda_satisfied d m (cbp_holdId p)"
    "insert_booking d (booking_of_hold bookingId h m p) = Inr d1"
  shows "confirmBooking d now bookingId p =
     (Inr (booking_ok (booking_of_hold bookingId h m p)),
      d\<lparr>bookings := bookings d @ [booking_of_hold bookingId h m p],
        slotHolds := update_where (\<lambda>g. sh_id g = cbp_holdId p) (\<lambda>g. g\<lparr>sh_status := HoldConverted\<rparr>) (slotHolds d),
        documents := update_where (\<lambda>x. doc_holdId x = Some (cbp_holdId p))
                            (\<lambda>x. x\<lparr>doc_bookingId := Some bookingId\<rparr>) (documents d)\<rparr>)"
proof -
  from assms(7) have d1: "d1 = d\<lparr>bookings := bookings d @ [booking_of_hold bookingId h m p]\<rparr>"
    unfolding insert_booking_def by (auto split: if_splits)
  show ?thesis
    using confirmBooking_tx_reaches_insert[OF assms(1-6), of bookingId] assms(7)
    by (simp add: confirmBooking_def d1)
qed

section \<open>Webhook deliveries\<close>
























section \<open>Slot generation\<close>












lemma slots_within_Cons:
  "lo \<le> as_start x \<Longrightarrow> as_start x < hi \<Longrightarrow> as_start x \<le> lo' \<Longrightarrow> slots_within lo' hi new \<Longrightarrow> slots_within lo hi (x # new)"
  by (fastforce simp: slots_within_def)






















section \<open>The claims about availability\<close>

text \<open>
  C6. \<open>getExistingSlots\<close> loads the holds and bookings that lie inside the window
  \<open>[start of the first day, end of the last day]\<close> read in the server's zone, without
  the buffers. A hold from 23:45 to 00:15 across the start of the window is in the
  occupancy of the specification and is not loaded: the slot from 00:00 to 00:30 is
  listed as available, overlaps the hold, and \<open>createHold\<close> refuses it. For a host
  in Tokyo and a server in UTC, the hold of Monday 08:00 to 08:30 Tokyo time lies
  before the window read in UTC: the held slot itself is listed as available.
\<close>

theorem getExistingSlots_misses_straddling_hold:
  "slotHolds ex_db8 = [ex_straddlingHold] \<and> sh_status ex_straddlingHold = HoldActive \<and>
   sh_meetingTypeId ex_straddlingHold = ''mt-1'' \<and>
   sh_slotStart ex_straddlingHold = 1767570300000 \<and> sh_slotEnd ex_straddlingHold = 1767572100000 \<and>
   dt_ts (startOf_day (zone_offset ex_clock ''UTC'') (fromISO (zone_offset ex_clock ''UTC'') ex_now 20458)) =
     1767571200000 \<and>
   occupancy_spec ex_clock ex_db8 ex_now ex_meetingType 20458 20458 = [(1767570300000, 1767572100000)] \<and>
   getExistingSlots ex_clock ex_db8 ex_now ''mt-1'' 20458 20458 = [] \<and>
   getAvailableSlots ex_clock ex_db8 ex_now ''mt-1'' 20458 20458 ''UTC'' =
     Some (Inr [\<lparr>as_start = 1767571200000, as_end = 1767573000000, as_available = True\<rparr>,
                \<lparr>as_start = 1767573000000, as_end = 1767574800000, as_available = True\<rparr>]) \<and>
   hasConflict \<lparr>dt_ts = 1767571200000, dt_o = 0\<rparr> \<lparr>dt_ts = 1767573000000, dt_o = 0\<rparr>
     [(1767570300000, 1767572100000)] \<and>
   fst (createHold ex_db8 ex_now ''hold-4''
          \<lparr>chp_meetingTypeId = ''mt-1'', chp_slotStart = 1767571200000, chp_slotEnd = 1767573000000,
           chp_email = ''guest@example.com'', chp_name = None, chp_idempotencyKey = ''key-4''\<rparr>) =
     Inr (hold_fail ''Slot already held'') \<and>
   slotHolds ex_db11 = [ex_tokyoHold] \<and> sh_status ex_tokyoHold = HoldActive \<and>
   sh_slotStart ex_tokyoHold = 1767567600000 \<and> sh_slotEnd ex_tokyoHold = 1767569400000 \<and>
   getHostTimezone ex_db11 ''user-1'' = ''Asia/Tokyo'' \<and>
   occupancy_spec ex_clock ex_db11 ex_now ex_meetingType 20458 20458 = [(1767567600000, 1767569400000)] \<and>
   getExistingSlots ex_clock ex_db11 ex_now ''mt-1'' 20458 20458 = [] \<and>
   getAvailableSlots ex_clock ex_db11 ex_now ''mt-1'' 20458 20458 ''UTC'' =
     Some (Inr [\<lparr>as_start = 1767567600000, as_end = 1767569400000, as_available = True\<rparr>,
                \<lparr>as_start = 1767569400000, as_end = 1767571200000, as_available = True\<rparr>])"
  by code_simp




section \<open>The public routes and the bus\<close>

lemma createHold_tx_success:
  assumes "createHold_tx d now newId p = Inr (res, d')" "hr_success res"
  shows "\<exists>h \<in> set (slotHolds d'). sh_idempotencyKey h = chp_idempotencyKey p \<and> sh_status h = HoldActive \<and>
           res = hold_ok (sh_id h) (sh_expiresAt h)"
  using assms unfolding createHold_tx_def insert_slotHold_def
  by (auto split: option.splits if_splits sum.splits simp: Let_def hold_fail_def dest!: first_row_Some_mem)

lemma createHold_success:
  assumes "createHold d now newId p = (Inr res, d')" "hr_success res"
  shows "\<exists>h \<in> set (slotHolds d'). sh_idempotencyKey h = chp_idempotencyKey p \<and> sh_status h = HoldActive \<and>
           res = hold_ok (sh_id h) (sh_expiresAt h)"
proof (cases "createHold_tx d now newId p")
  case (Inl e)
  with assms show ?thesis by (auto simp: createHold_def hold_fail_def split: if_splits)
next
  case (Inr rd)
  then obtain r0 d0 where tx: "createHold_tx d now newId p = Inr (r0, d0)" by (cases rd) auto
  with assms(1) have "r0 = res" "d0 = d'" by (simp_all add: createHold_def)
  with createHold_tx_success[OF tx] assms(2) show ?thesis by simp
qed

lemma createHold_meetingTypes: "meetingTypes (snd (createHold d now newId p)) = meetingTypes d"
  using createHold_holds[of d now newId p] by auto

lemma publish_fresh: "ev_eventId e \<notin> set (map ev_eventId bus) \<Longrightarrow> publish bus e = bus @ [e]"
  by (simp add: publish_def)

text \<open>The routes take the database through steps of \<open>evolves\<close>.\<close>

lemma post_hold_evolves: "evolves d (fst (snd (post_hold d bus now newId eid publishFails slug dat)))"
proof (cases "getBySlugWithOwner d slug")
  case None
  then show ?thesis by (simp add: post_hold_def e_refl)
next
  case (Some m)
  let ?p = "\<lparr>chp_meetingTypeId = mt_id m, chp_slotStart = hq_slotStart dat,
                   chp_slotEnd = hq_slotEnd dat, chp_email = hq_email dat, chp_name = hq_name dat,
                   chp_idempotencyKey = hq_idempotencyKey dat\<rparr>"
  have "fst (snd (post_hold d bus now newId eid publishFails slug dat)) = snd (createHold d now newId ?p)"
    using Some by (auto simp: post_hold_def split: prod.splits sum.splits)
  then show ?thesis using e_createHold[OF e_refl, of d now newId ?p] by simp
qed

lemma delete_hold_evolves: "evolves d (fst (snd (delete_hold d bus now eid slug holdId)))"
proof -
  have "fst (snd (delete_hold d bus now eid slug holdId)) = d \<or>
        fst (snd (delete_hold d bus now eid slug holdId)) =
          fst (snd (releaseHold d bus now eid holdId ReasonCanceled))"
    by (auto simp: delete_hold_def split: option.splits prod.splits)
  then show ?thesis using e_refl[of d] e_releaseHold[OF e_refl, of d bus now eid holdId ReasonCanceled]
    by auto
qed

lemma post_confirm_evolves:
  "evolves d (fst (snd (post_confirm d bus now bookingId eid1 eid2 slug dat)))"
proof -
  have "fst (snd (post_confirm d bus now bookingId eid1 eid2 slug dat)) = d \<or>
        fst (snd (post_confirm d bus now bookingId eid1 eid2 slug dat)) =
          snd (confirmBooking d now bookingId dat) \<or>
        (\<exists>bus1. fst (snd (post_confirm d bus now bookingId eid1 eid2 slug dat)) =
          fst (snd (releaseHold (snd (confirmBooking d now bookingId dat)) bus1 now eid2
                      (cbp_holdId dat) ReasonConverted)))"
    by (auto simp: post_confirm_def Let_def split: option.splits prod.splits sum.splits)
       (metis fst_conv snd_conv)+
  then show ?thesis
    using e_refl[of d] e_confirmBooking[OF e_refl, of d now bookingId dat]
      e_releaseHold[OF e_confirmBooking[OF e_refl, of d now bookingId dat]]
    by auto
qed

text \<open>
  C8. Confirming a booking through \<open>POST /:slug/confirm\<close> takes the hold from \<open>active\<close>
  to \<open>converted\<close> inside the transaction, so the \<open>releaseHold\<close> that the route calls
  afterwards finds no active row and publishes nothing: the bus receives
  \<open>booking.confirmed\<close> and no \<open>slot.released\<close>. A confirmation that finds the hold past
  its expiry sets it to \<open>expired\<close> and publishes nothing either, and the sweep that
  follows has nothing left to report.
\<close>

theorem post_confirm_publishes_no_slot_released:
  "getHold ex_db1 ''hold-1'' = Some ex_hold1 \<and> sh_status ex_hold1 = HoldActive \<and>
   post_confirm ex_db1 [] ex_now ''booking-1'' ''event-1'' ''event-2'' ''intro'' ex_confirmParams =
     (json (BookingBody ''booking-1'' 1767603600000 1767605400000 ''Guest'' ''guest@example.com'') 200,
      ex_db2, [ex_bookingConfirmed]) \<and>
   getHold ex_db2 ''hold-1'' = Some (ex_hold1\<lparr>sh_status := HoldConverted\<rparr>) \<and>
   ev_eventType ex_bookingConfirmed = ''booking.confirmed'' \<and>
   releaseHold ex_db2 [ex_bookingConfirmed] ex_now ''event-2'' ''hold-1'' ReasonConverted =
     (False, ex_db2, [ex_bookingConfirmed]) \<and>
   post_confirm ex_db1 [] (ex_now + 1000000) ''booking-1'' ''event-1'' ''event-2'' ''intro'' ex_confirmParams =
     (json (ErrorBody ''Bad Request'' (Some ''Hold has expired'')) 400,
      ex_db0\<lparr>slotHolds := [ex_hold1\<lparr>sh_status := HoldExpired\<rparr>]\<rparr>, []) \<and>
   expireHolds (ex_db0\<lparr>slotHolds := [ex_hold1\<lparr>sh_status := HoldExpired\<rparr>]\<rparr>) [] (ex_now + 2000000)
       (\<lambda>i. ''event-3'') =
     ([], ex_db0\<lparr>slotHolds := [ex_hold1\<lparr>sh_status := HoldExpired\<rparr>]\<rparr>, [])"
  by code_simp

text \<open>
  C9 (as amended). When a create-hold request with the key \<open>K\<close> has been answered 201
  with a hold id, it has published one \<open>slot.held\<close> event for that hold, and a later
  request with the key \<open>K\<close>, at any time and after any steps of the system, finds the row
  of that hold and creates no other: it is answered 404 when its slug has no active
  meeting type; otherwise 201 with the same hold id and the current expiry of the hold
  while the hold is active, and then it publishes one more \<open>slot.held\<close> event for the
  same hold under its fresh event id (500 and no event when the publication fails);
  otherwise 409 \<open>Previous hold expired\<close>, without an event. In each case the database is
  left as it was found.
\<close>

theorem post_hold_replay_later:
  assumes "distinct (map sh_idempotencyKey (slotHolds d))"
    and "post_hold d bus now newId eid publishFails slug dat = (r, d', bus')"
    and "resp_status r = 201"
    and "eid \<notin> set (map ev_eventId bus)"
    and "evolves d' d2"
    and "hq_idempotencyKey dat2 = hq_idempotencyKey dat"
    and "eid' \<notin> set (map ev_eventId bus2)"
  shows "\<exists>h expiresAt ndaRequired m.
           r = json (HoldCreatedBody (sh_id h) expiresAt ndaRequired) 201 \<and>
           getBySlugWithOwner d slug = Some m \<and>
           bus' = bus @ [\<lparr>ev_eventId = eid, ev_eventType = ''slot.held'', ev_occurredAt = now,
                           ev_data = SlotHeld (sh_id h) (mt_id m) (hq_slotStart dat) (hq_slotEnd dat)
                                       (hq_email dat) expiresAt\<rparr>] \<and>
           h \<in> set (slotHolds d2) \<and> sh_idempotencyKey h = hq_idempotencyKey dat \<and>
           post_hold d2 bus2 now' newId' eid' publishFails' slug2 dat2 =
             (case getBySlugWithOwner d2 slug2 of
                None \<Rightarrow> (json (ErrorBody ''Not Found'' (Some ''Meeting type not found'')) 404, d2, bus2)
              | Some m2 \<Rightarrow>
                  if sh_status h = HoldActive
                  then if publishFails'
                       then (json (ErrorBody ''Internal Server Error'' None) 500, d2, bus2)
                       else (json (HoldCreatedBody (sh_id h) (sh_expiresAt h) (mt_requiresNda m2)) 201, d2,
                             bus2 @ [\<lparr>ev_eventId = eid', ev_eventType = ''slot.held'', ev_occurredAt = now',
                                      ev_data = SlotHeld (sh_id h) (mt_id m2) (hq_slotStart dat2)
                                                  (hq_slotEnd dat2) (hq_email dat2) (sh_expiresAt h)\<rparr>])
                  else (json (ErrorBody ''Conflict'' (Some ''Previous hold expired'')) 409, d2, bus2))"
proof -
  let ?p = "\<lambda>m dat. \<lparr>chp_meetingTypeId = mt_id m, chp_slotStart = hq_slotStart dat,
                   chp_slotEnd = hq_slotEnd dat, chp_email = hq_email dat, chp_name = hq_name dat,
                   chp_idempotencyKey = hq_idempotencyKey dat\<rparr>"
  from assms(2,3) obtain m where m: "getBySlugWithOwner d slug = Some m"
    by (cases "getBySlugWithOwner d slug") (auto simp: post_hold_def json_def)
  obtain cr d1 where c: "createHold d now newId (?p m dat) = (cr, d1)"
    by (cases "createHold d now newId (?p m dat)")
  from assms(2,3) m c obtain res where res: "cr = Inr res" "hr_success res" "d' = d1"
    and r: "r = json (HoldCreatedBody (the (hr_holdId res)) (the (hr_expiresAt res)) (mt_requiresNda m)) 201"
    and b: "bus' = publishSlotHeld bus eid now
                    (SlotHeld (the (hr_holdId res)) (mt_id m) (hq_slotStart dat) (hq_slotEnd dat)
                       (hq_email dat) (the (hr_expiresAt res)))"
    by (cases cr) (auto simp: post_hold_def json_def split: if_splits)
  from c res have c': "createHold d now newId (?p m dat) = (Inr res, d')" by simp
  from createHold_success[OF c' res(2)] obtain h where h: "h \<in> set (slotHolds d')"
    "sh_idempotencyKey h = hq_idempotencyKey dat" "res = hold_ok (sh_id h) (sh_expiresAt h)" by auto
  have d'eq: "d' = snd (createHold d now newId (?p m dat))" using c' by simp
  have k': "distinct (map sh_idempotencyKey (slotHolds d'))"
    unfolding d'eq using assms(1) by (rule createHold_keys)
  have k2: "distinct (map sh_idempotencyKey (slotHolds d2))"
    using assms(5) k' by (rule evolves_keys_distinct)
  from evolves_hold_kept[OF assms(5) h(1)] obtain h2 where h2: "h2 \<in> set (slotHolds d2)"
    "sh_id h2 = sh_id h" "sh_idempotencyKey h2 = sh_idempotencyKey h" by blast
  have r': "r = json (HoldCreatedBody (sh_id h2) (sh_expiresAt h) (mt_requiresNda m)) 201"
    using r h(3) h2(2) by (simp add: hold_ok_def)
  have b': "bus' = bus @ [\<lparr>ev_eventId = eid, ev_eventType = ''slot.held'', ev_occurredAt = now,
                           ev_data = SlotHeld (sh_id h2) (mt_id m) (hq_slotStart dat) (hq_slotEnd dat)
                                       (hq_email dat) (sh_expiresAt h)\<rparr>]"
    using b h(3) h2(2) assms(4) by (simp add: hold_ok_def publishSlotHeld_def publish_def)
  have again: "createHold d2 now' newId' (?p m2 dat2) =
     (Inr (if sh_status h2 = HoldActive then hold_ok (sh_id h2) (sh_expiresAt h2)
           else hold_fail ''Previous hold expired''), d2)" for m2
    using createHold_existing[OF k2 h2(1), of "?p m2 dat2" now' newId'] h2(3) h(2) assms(6) by simp
  have pub: "publishSlotHeld bus2 eid' now' dat0 =
      bus2 @ [\<lparr>ev_eventId = eid', ev_eventType = ''slot.held'', ev_occurredAt = now', ev_data = dat0\<rparr>]" for dat0
    using assms(7) by (simp add: publishSlotHeld_def publish_def)
  have "post_hold d2 bus2 now' newId' eid' publishFails' slug2 dat2 =
             (case getBySlugWithOwner d2 slug2 of
                None \<Rightarrow> (json (ErrorBody ''Not Found'' (Some ''Meeting type not found'')) 404, d2, bus2)
              | Some m2 \<Rightarrow>
                  if sh_status h2 = HoldActive
                  then if publishFails'
                       then (json (ErrorBody ''Internal Server Error'' None) 500, d2, bus2)
                       else (json (HoldCreatedBody (sh_id h2) (sh_expiresAt h2) (mt_requiresNda m2)) 201, d2,
                             bus2 @ [\<lparr>ev_eventId = eid', ev_eventType = ''slot.held'', ev_occurredAt = now',
                                      ev_data = SlotHeld (sh_id h2) (mt_id m2) (hq_slotStart dat2)
                                                  (hq_slotEnd dat2) (hq_email dat2) (sh_expiresAt h2)\<rparr>])
                  else (json (ErrorBody ''Conflict'' (Some ''Previous hold expired'')) 409, d2, bus2))"
    by (simp add: post_hold_def again pub hold_ok_def hold_fail_def split: option.split)
  with r' b' m h2(1) h2(3) h(2) show ?thesis
    by (intro exI[of _ h2] exI[of _ "sh_expiresAt h"] exI[of _ "mt_requiresNda m"] exI[of _ m]) simp
qed

theorem post_hold_replay_later_witness:
  "distinct (map sh_idempotencyKey (slotHolds ex_db0)) \<and>
   ''event-1'' \<notin> set (map ev_eventId ([] :: event list)) \<and>
   post_hold ex_db0 [] ex_now ''hold-1'' ''event-1'' False ''intro'' ex_holdRequest =
     (json (HoldCreatedBody ''hold-1'' 1767300900000 False) 201, ex_db1, [ex_slotHeld ''event-1'' ex_now]) \<and>
   evolves ex_db1 ex_db1 \<and>
   ''event-2'' \<notin> set (map ev_eventId [ex_slotHeld ''event-1'' ex_now]) \<and>
   post_hold ex_db1 [ex_slotHeld ''event-1'' ex_now] (ex_now + 5000) ''hold-2'' ''event-2'' False ''intro''
       ex_holdRequest =
     (json (HoldCreatedBody ''hold-1'' 1767300900000 False) 201, ex_db1,
      [ex_slotHeld ''event-1'' ex_now, ex_slotHeld ''event-2'' (ex_now + 5000)]) \<and>
   post_hold ex_db1 [ex_slotHeld ''event-1'' ex_now] (ex_now + 5000) ''hold-2'' ''event-2'' True ''intro''
       ex_holdRequest =
     (json (ErrorBody ''Internal Server Error'' None) 500, ex_db1, [ex_slotHeld ''event-1'' ex_now]) \<and>
   fst (snd (expireHolds ex_db1 [ex_slotHeld ''event-1'' ex_now] (ex_now + 1000000) (\<lambda>i. ''event-3''))) = ex_db12 \<and>
   evolves ex_db1 ex_db12 \<and>
   post_hold ex_db12 [ex_slotHeld ''event-1'' ex_now] (ex_now + 2000000) ''hold-2'' ''event-2'' False ''intro''
       ex_holdRequest =
     (json (ErrorBody ''Conflict'' (Some ''Previous hold expired'')) 409, ex_db12,
      [ex_slotHeld ''event-1'' ex_now])"
proof -
  have k: "distinct (map sh_idempotencyKey (slotHolds ex_db0))" by (simp add: ex_db0_def)
  have f: "post_hold ex_db0 [] ex_now ''hold-1'' ''event-1'' False ''intro'' ex_holdRequest =
     (json (HoldCreatedBody ''hold-1'' 1767300900000 False) 201, ex_db1, [ex_slotHeld ''event-1'' ex_now])"
    by code_simp
  have st: "resp_status (json (HoldCreatedBody ''hold-1'' 1767300900000 False) 201) = 201"
    by (simp add: json_def)
  have fr0: "''event-1'' \<notin> set (map ev_eventId ([] :: event list))" by simp
  have fr: "''event-2'' \<notin> set (map ev_eventId [ex_slotHeld ''event-1'' ex_now])"
    by (simp add: ex_slotHeld_def)
  have e1: "evolves ex_db1 ex_db1" by (rule e_refl)
  have x: "fst (snd (expireHolds ex_db1 [ex_slotHeld ''event-1'' ex_now] (ex_now + 1000000) (\<lambda>i. ''event-3''))) = ex_db12"
    by code_simp
  have e2: "evolves ex_db1 ex_db12"
    using e_expireHolds[OF e_refl, of ex_db1 "[ex_slotHeld ''event-1'' ex_now]" "ex_now + 1000000" "\<lambda>i. ''event-3''"]
    by (simp only: x)
  have m: "getBySlugWithOwner ex_db1 ''intro'' = Some ex_meetingType"
    "getBySlugWithOwner ex_db12 ''intro'' = Some ex_meetingType"
    "mt_id ex_meetingType = ''mt-1''" "mt_requiresNda ex_meetingType = False" by code_simp+
  have q: "hq_slotStart ex_holdRequest = 1767603600000" "hq_slotEnd ex_holdRequest = 1767605400000"
    "hq_email ex_holdRequest = ''Guest@example.com''" by (simp_all add: ex_holdRequest_def)
  have rows: "slotHolds ex_db1 = [ex_hold1]" "slotHolds ex_db12 = [ex_hold1\<lparr>sh_status := HoldExpired\<rparr>]"
    by (simp_all add: ex_db1_def ex_db12_def)
  from post_hold_replay_later[OF k f st fr0 e1 refl fr, of "ex_now + 5000" "''hold-2''" False "''intro''"]
  have a: "post_hold ex_db1 [ex_slotHeld ''event-1'' ex_now] (ex_now + 5000) ''hold-2'' ''event-2'' False ''intro''
       ex_holdRequest =
     (json (HoldCreatedBody ''hold-1'' 1767300900000 False) 201, ex_db1,
      [ex_slotHeld ''event-1'' ex_now, ex_slotHeld ''event-2'' (ex_now + 5000)])"
    by (auto simp: m q rows ex_hold1_def ex_slotHeld_def)
  from post_hold_replay_later[OF k f st fr0 e1 refl fr, of "ex_now + 5000" "''hold-2''" True "''intro''"]
  have a2: "post_hold ex_db1 [ex_slotHeld ''event-1'' ex_now] (ex_now + 5000) ''hold-2'' ''event-2'' True ''intro''
       ex_holdRequest =
     (json (ErrorBody ''Internal Server Error'' None) 500, ex_db1, [ex_slotHeld ''event-1'' ex_now])"
    by (auto simp: m rows ex_hold1_def)
  from post_hold_replay_later[OF k f st fr0 e2 refl fr, of "ex_now + 2000000" "''hold-2''" False "''intro''"]
  have b: "post_hold ex_db12 [ex_slotHeld ''event-1'' ex_now] (ex_now + 2000000) ''hold-2'' ''event-2'' False ''intro''
       ex_holdRequest =
     (json (ErrorBody ''Conflict'' (Some ''Previous hold expired'')) 409, ex_db12,
      [ex_slotHeld ''event-1'' ex_now])"
    by (auto simp: m rows ex_hold1_def)
  from k fr0 f e1 fr a a2 x e2 b show ?thesis by blast
qed

text \<open>
  The claim as stated fails on the replay itself: two requests with the key \<open>key-1\<close>
  return the same hold id and leave two \<open>slot.held\<close> events on the bus. And once the
  sweep has expired the hold, the second request returns no hold id.
\<close>

theorem post_hold_replay_counterexample:
  "post_hold ex_db0 [] ex_now ''hold-1'' ''event-1'' False ''intro'' ex_holdRequest =
     (json (HoldCreatedBody ''hold-1'' 1767300900000 False) 201, ex_db1, [ex_slotHeld ''event-1'' ex_now]) \<and>
   post_hold ex_db1 [ex_slotHeld ''event-1'' ex_now] (ex_now + 5000) ''hold-2'' ''event-2'' False ''intro''
       ex_holdRequest =
     (json (HoldCreatedBody ''hold-1'' 1767300900000 False) 201, ex_db1,
      [ex_slotHeld ''event-1'' ex_now, ex_slotHeld ''event-2'' (ex_now + 5000)]) \<and>
   map ev_eventType [ex_slotHeld ''event-1'' ex_now, ex_slotHeld ''event-2'' (ex_now + 5000)] =
     [''slot.held'', ''slot.held''] \<and>
   fst (snd (expireHolds ex_db1 [ex_slotHeld ''event-1'' ex_now] (ex_now + 1000000) (\<lambda>i. ''event-3''))) =
     ex_db12 \<and>
   post_hold ex_db12 [ex_slotHeld ''event-1'' ex_now] (ex_now + 2000000) ''hold-2'' ''event-2'' False ''intro''
       ex_holdRequest =
     (json (ErrorBody ''Conflict'' (Some ''Previous hold expired'')) 409, ex_db12,
      [ex_slotHeld ''event-1'' ex_now])"
  by code_simp

section \<open>The claims about webhooks and documents\<close>






section \<open>The claims\<close>

text \<open>
  C1. In every reachable database state, two distinct rows of the holds table that are
  both active on the same meeting type have disjoint intervals \<open>[slot_start, slot_end)\<close>,
  and two distinct rows of the bookings table that are both confirmed on the same
  meeting type have disjoint intervals; and creating a hold, confirming a booking,
  releasing a hold, the expiration sweep and cancelling a booking each lead from a
  state with both properties to a state with both properties.
\<close>

theorem exclusion_invariant_preserved:
  "(reachable d \<longrightarrow> exclusion_invariant d) \<and>
   (exclusion_invariant d \<longrightarrow>
      exclusion_invariant (snd (createHold d now newId p)) \<and>
      exclusion_invariant (snd (confirmBooking d now bookingId cp)) \<and>
      exclusion_invariant (fst (snd (releaseHold d bus now eid holdId reason))) \<and>
      exclusion_invariant (fst (snd (expireHolds d bus now eids))) \<and>
      exclusion_invariant (fst (snd (cancelBooking d bus now eid bookingId canceledBy why))))"
  by (simp add: reachable_exclusion createHold_excl confirmBooking_excl releaseHold_excl
      expireHolds_excl cancelBooking_excl)

theorem exclusion_invariant_preserved_witness:
  "reachable ex_db1 \<and> exclusion_invariant ex_db1 \<and>
   exclusion_invariant (snd (createHold ex_db1 ex_now ''hold-2'' (ex_holdParams\<lparr>chp_idempotencyKey := ''key-2''\<rparr>))) \<and>
   exclusion_invariant (fst (snd (expireHolds ex_db1 [] ex_now (\<lambda>i. ''event-1''))))"
  using exclusion_invariant_preserved[where d = ex_db1 and now = ex_now and newId = "''hold-2''"
      and p = "ex_holdParams\<lparr>chp_idempotencyKey := ''key-2''\<rparr>" and bus = "[]"
      and eids = "\<lambda>i. ''event-1''"]
    ex_db1_reachable by blast

text \<open>
  C2. In a reachable state the idempotency keys of the stored holds are pairwise
  different, and a \<open>createHold\<close> whose key is the key of a stored hold changes nothing:
  it returns the id and expiry of that hold when the hold is active, and fails with
  \<open>Previous hold expired\<close> when it is not.
\<close>

theorem createHold_idempotency_key:
  assumes "reachable d"
  shows "distinct (map sh_idempotencyKey (slotHolds d)) \<and>
         (\<forall>h \<in> set (slotHolds d). sh_idempotencyKey h = chp_idempotencyKey p \<longrightarrow>
            createHold d now newId p =
              (Inr (if sh_status h = HoldActive then hold_ok (sh_id h) (sh_expiresAt h)
                    else hold_fail ''Previous hold expired''), d))"
  using reachable_keys_distinct[OF assms] createHold_existing by blast

theorem createHold_idempotency_key_witness:
  "reachable ex_db1 \<and> ex_hold1 \<in> set (slotHolds ex_db1) \<and>
   sh_idempotencyKey ex_hold1 = chp_idempotencyKey ex_holdParams \<and>
   createHold ex_db1 (ex_now + 5000) ''hold-2'' ex_holdParams = (Inr (hold_ok ''hold-1'' 1767300900000), ex_db1)"
proof -
  have m: "ex_hold1 \<in> set (slotHolds ex_db1)" by (simp add: ex_db1_def)
  have k: "sh_idempotencyKey ex_hold1 = chp_idempotencyKey ex_holdParams"
    by (simp add: ex_hold1_def ex_holdParams_def)
  have a: "sh_status ex_hold1 = HoldActive" "sh_id ex_hold1 = ''hold-1''" "sh_expiresAt ex_hold1 = 1767300900000"
    by (simp_all add: ex_hold1_def)
  from createHold_idempotency_key[OF ex_db1_reachable, of ex_holdParams "ex_now + 5000" "''hold-2''"] m k a
  show ?thesis using ex_db1_reachable by simp
qed

text \<open>
  C3 (as amended). For a \<open>confirmBooking\<close> whose idempotency key is the key of no stored
  booking: when the hold is missing the call fails with \<open>Hold not found\<close>, and when its
  status is not active with \<open>Hold is <status>\<close>, both without any change; when the hold
  is active and its \<open>expires_at\<close> is before now, the call fails with \<open>Hold has expired\<close>
  and the committed state differs only in that hold, now expired; and when the insert
  of the booking violates \<open>no_double_booking\<close>, the call fails with
  \<open>Slot already booked\<close> and the state is unchanged. No case adds a booking row.
\<close>

theorem confirmBooking_rejects:
  assumes "\<forall>b \<in> set (bookings d). bk_idempotencyKey b \<noteq> cbp_idempotencyKey p"
  shows "(getHold d (cbp_holdId p) = None \<longrightarrow>
            confirmBooking d now bookingId p = (Inr (booking_fail ''Hold not found''), d)) \<and>
         (\<forall>h. getHold d (cbp_holdId p) = Some h \<longrightarrow>
            (sh_status h \<noteq> HoldActive \<longrightarrow>
               confirmBooking d now bookingId p =
                 (Inr (booking_fail (''Hold is '' @ hold_status_text (sh_status h))), d)) \<and>
            (sh_status h = HoldActive \<and> sh_expiresAt h < now \<longrightarrow>
               confirmBooking d now bookingId p =
                 (Inr (booking_fail ''Hold has expired''),
                  d\<lparr>slotHolds := update_where (\<lambda>g. sh_id g = cbp_holdId p)
                                    (\<lambda>g. g\<lparr>sh_status := HoldExpired\<rparr>) (slotHolds d)\<rparr>)) \<and>
            (\<forall>m. sh_status h = HoldActive \<and> \<not> sh_expiresAt h < now \<and>
                 first_row (filter (\<lambda>m. mt_id m = sh_meetingTypeId h) (meetingTypes d)) = Some m \<and>
                 nda_satisfied d m (cbp_holdId p) \<and>
                 insert_booking d (booking_of_hold bookingId h m p) =
                   Inl (ExclusionViolation ''no_double_booking'') \<longrightarrow>
               confirmBooking d now bookingId p = (Inr (booking_fail ''Slot already booked''), d)))"
  using confirmBooking_hold_missing[OF assms] confirmBooking_hold_inactive[OF assms]
    confirmBooking_hold_expired[OF assms] confirmBooking_exclusion[OF assms]
  by blast

theorem confirmBooking_rejects_witness:
  "cbp_idempotencyKey ex_confirmParams \<notin> set (map bk_idempotencyKey (bookings ex_db0)) \<and>
   getHold ex_db0 (cbp_holdId ex_confirmParams) = None \<and>
   confirmBooking ex_db0 ex_now ''booking-1'' ex_confirmParams = (Inr (booking_fail ''Hold not found''), ex_db0) \<and>
   cbp_idempotencyKey ex_confirmParams \<notin> set (map bk_idempotencyKey (bookings ex_db1)) \<and>
   getHold ex_db1 (cbp_holdId ex_confirmParams) = Some ex_hold1 \<and>
   sh_status ex_hold1 = HoldActive \<and> sh_expiresAt ex_hold1 < ex_now + 1000000 \<and>
   confirmBooking ex_db1 (ex_now + 1000000) ''booking-1'' ex_confirmParams =
     (Inr (booking_fail ''Hold has expired''), ex_db0\<lparr>slotHolds := [ex_hold1\<lparr>sh_status := HoldExpired\<rparr>]\<rparr>) \<and>
   insert_booking ex_db5 (booking_of_hold ''booking-2'' ex_hold1 ex_meetingType (ex_confirmParams\<lparr>cbp_idempotencyKey := ''ckey-2''\<rparr>)) =
     Inl (ExclusionViolation ''no_double_booking'') \<and>
   confirmBooking ex_db5 ex_now ''booking-2'' (ex_confirmParams\<lparr>cbp_idempotencyKey := ''ckey-2''\<rparr>) =
     (Inr (booking_fail ''Slot already booked''), ex_db5)"
proof -
  have k5: "\<forall>b \<in> set (bookings ex_db5).
      bk_idempotencyKey b \<noteq> cbp_idempotencyKey (ex_confirmParams\<lparr>cbp_idempotencyKey := ''ckey-2''\<rparr>)"
    by (simp add: ex_db5_def ex_db1_def ex_db0_def ex_booking1_def)
  have g5: "getHold ex_db5 (cbp_holdId (ex_confirmParams\<lparr>cbp_idempotencyKey := ''ckey-2''\<rparr>)) = Some ex_hold1"
    by code_simp
  have a5: "sh_status ex_hold1 = HoldActive \<and> \<not> sh_expiresAt ex_hold1 < ex_now \<and>
     first_row (filter (\<lambda>m. mt_id m = sh_meetingTypeId ex_hold1) (meetingTypes ex_db5)) = Some ex_meetingType \<and>
     nda_satisfied ex_db5 ex_meetingType (cbp_holdId (ex_confirmParams\<lparr>cbp_idempotencyKey := ''ckey-2''\<rparr>)) \<and>
     insert_booking ex_db5 (booking_of_hold ''booking-2'' ex_hold1 ex_meetingType (ex_confirmParams\<lparr>cbp_idempotencyKey := ''ckey-2''\<rparr>)) =
       Inl (ExclusionViolation ''no_double_booking'')"
    by code_simp
  from confirmBooking_rejects[OF k5, of ex_now "''booking-2''"] g5 a5
  have r5: "confirmBooking ex_db5 ex_now ''booking-2'' (ex_confirmParams\<lparr>cbp_idempotencyKey := ''ckey-2''\<rparr>) =
     (Inr (booking_fail ''Slot already booked''), ex_db5)"
    by blast
  have k0: "\<forall>b \<in> set (bookings ex_db0). bk_idempotencyKey b \<noteq> cbp_idempotencyKey ex_confirmParams"
    by (simp add: ex_db0_def)
  have k1: "\<forall>b \<in> set (bookings ex_db1). bk_idempotencyKey b \<noteq> cbp_idempotencyKey ex_confirmParams"
    by (simp add: ex_db1_def ex_db0_def)
  have g0: "getHold ex_db0 (cbp_holdId ex_confirmParams) = None" by code_simp
  have g1: "getHold ex_db1 (cbp_holdId ex_confirmParams) = Some ex_hold1" by code_simp
  have a1: "sh_status ex_hold1 = HoldActive" "sh_expiresAt ex_hold1 < ex_now + 1000000"
    by (simp_all add: ex_hold1_def ex_now_def)
  have u: "ex_db1\<lparr>slotHolds := update_where (\<lambda>g. sh_id g = cbp_holdId ex_confirmParams)
                 (\<lambda>g. g\<lparr>sh_status := HoldExpired\<rparr>) (slotHolds ex_db1)\<rparr>
           = ex_db0\<lparr>slotHolds := [ex_hold1\<lparr>sh_status := HoldExpired\<rparr>]\<rparr>"
    by code_simp
  from confirmBooking_rejects[OF k0, of ex_now "''booking-1''"] g0
  have r0: "confirmBooking ex_db0 ex_now ''booking-1'' ex_confirmParams = (Inr (booking_fail ''Hold not found''), ex_db0)"
    by blast
  from confirmBooking_rejects[OF k1, of "ex_now + 1000000" "''booking-1''"] g1 a1
  have r1: "confirmBooking ex_db1 (ex_now + 1000000) ''booking-1'' ex_confirmParams =
     (Inr (booking_fail ''Hold has expired''),
      ex_db1\<lparr>slotHolds := update_where (\<lambda>g. sh_id g = cbp_holdId ex_confirmParams)
                 (\<lambda>g. g\<lparr>sh_status := HoldExpired\<rparr>) (slotHolds ex_db1)\<rparr>)"
    by blast
  from k0 k1 g0 g1 a1 r0 r1 u r5 a5 show ?thesis by auto
qed

text \<open>
  The claim as stated fails on the replay of a confirmation: after the first call the
  hold is \<open>converted\<close>, and the second call with the same key succeeds with the stored
  booking.
\<close>

theorem confirmBooking_replay_counterexample:
  "confirmBooking ex_db1 ex_now ''booking-1'' ex_confirmParams = (Inr (booking_ok ex_booking1), ex_db2) \<and>
   getHold ex_db2 (cbp_holdId ex_confirmParams) = Some (ex_hold1\<lparr>sh_status := HoldConverted\<rparr>) \<and>
   confirmBooking ex_db2 (ex_now + 60000) ''booking-2'' ex_confirmParams = (Inr (booking_ok ex_booking1), ex_db2) \<and>
   br_success (booking_ok ex_booking1)"
  by code_simp

text \<open>
  C4 (as amended). For a \<open>confirmBooking\<close> whose idempotency key is the key of no stored
  booking, on an active hold that has not expired and whose meeting type requires an
  NDA: when no document of the hold is signed the call fails with
  \<open>NDA must be signed before booking\<close> and changes nothing; when one is signed and the
  insert passes the constraints of the bookings table, the committed state has the
  new booking with status \<open>confirmed\<close>, the hold \<open>converted\<close> and every document of the
  hold linked to the booking.
\<close>

theorem confirmBooking_nda_gate:
  assumes "\<forall>b \<in> set (bookings d). bk_idempotencyKey b \<noteq> cbp_idempotencyKey p"
    and "getHold d (cbp_holdId p) = Some h"
    and "sh_status h = HoldActive"
    and "\<not> sh_expiresAt h < now"
    and "first_row (filter (\<lambda>m. mt_id m = sh_meetingTypeId h) (meetingTypes d)) = Some m"
    and "mt_requiresNda m"
  shows "(\<not> (\<exists>x \<in> set (documents d). doc_holdId x = Some (cbp_holdId p) \<and> doc_status x = DocSigned) \<longrightarrow>
            confirmBooking d now bookingId p =
              (Inr (booking_fail ''NDA must be signed before booking''), d)) \<and>
         ((\<exists>x \<in> set (documents d). doc_holdId x = Some (cbp_holdId p) \<and> doc_status x = DocSigned) \<and>
          sh_slotStart h \<le> sh_slotEnd h \<and> bookingId \<notin> set (map bk_id (bookings d)) \<and>
          \<not> violates_no_double_booking (bookings d) (booking_of_hold bookingId h m p) \<longrightarrow>
            bk_status (booking_of_hold bookingId h m p) = BookingConfirmed \<and>
            confirmBooking d now bookingId p =
              (Inr (booking_ok (booking_of_hold bookingId h m p)),
               d\<lparr>bookings := bookings d @ [booking_of_hold bookingId h m p],
                 slotHolds := update_where (\<lambda>g. sh_id g = cbp_holdId p)
                                (\<lambda>g. g\<lparr>sh_status := HoldConverted\<rparr>) (slotHolds d),
                 documents := update_where (\<lambda>x. doc_holdId x = Some (cbp_holdId p))
                                (\<lambda>x. x\<lparr>doc_bookingId := Some bookingId\<rparr>) (documents d)\<rparr>))"
proof (intro conjI impI)
  assume "\<not> (\<exists>x \<in> set (documents d). doc_holdId x = Some (cbp_holdId p) \<and> doc_status x = DocSigned)"
  with assms show "confirmBooking d now bookingId p =
      (Inr (booking_fail ''NDA must be signed before booking''), d)"
    by (rule confirmBooking_nda_required)
next
  show "bk_status (booking_of_hold bookingId h m p) = BookingConfirmed"
    by (simp add: booking_of_hold_def)
next
  assume a: "(\<exists>x \<in> set (documents d). doc_holdId x = Some (cbp_holdId p) \<and> doc_status x = DocSigned) \<and>
          sh_slotStart h \<le> sh_slotEnd h \<and> bookingId \<notin> set (map bk_id (bookings d)) \<and>
          \<not> violates_no_double_booking (bookings d) (booking_of_hold bookingId h m p)"
  then have nda: "nda_satisfied d m (cbp_holdId p)" by (simp add: nda_satisfied_def)
  have ins: "insert_booking d (booking_of_hold bookingId h m p) =
               Inr (d\<lparr>bookings := bookings d @ [booking_of_hold bookingId h m p]\<rparr>)"
    using a assms(1) by (auto simp: insert_booking_def booking_of_hold_def)
  from confirmBooking_success[OF assms(1-5) nda ins]
  show "confirmBooking d now bookingId p =
              (Inr (booking_ok (booking_of_hold bookingId h m p)),
               d\<lparr>bookings := bookings d @ [booking_of_hold bookingId h m p],
                 slotHolds := update_where (\<lambda>g. sh_id g = cbp_holdId p)
                                (\<lambda>g. g\<lparr>sh_status := HoldConverted\<rparr>) (slotHolds d),
                 documents := update_where (\<lambda>x. doc_holdId x = Some (cbp_holdId p))
                                (\<lambda>x. x\<lparr>doc_bookingId := Some bookingId\<rparr>) (documents d)\<rparr>)" .
qed


theorem confirmBooking_nda_gate_witness:
  "cbp_idempotencyKey ex_confirmParams2 \<notin> set (map bk_idempotencyKey (bookings ex_db3)) \<and>
   getHold ex_db3 (cbp_holdId ex_confirmParams2) = Some ex_hold2 \<and>
   sh_status ex_hold2 = HoldActive \<and> \<not> sh_expiresAt ex_hold2 < ex_now \<and>
   first_row (filter (\<lambda>m. mt_id m = sh_meetingTypeId ex_hold2) (meetingTypes ex_db3)) = Some ex_ndaMeetingType \<and>
   mt_requiresNda ex_ndaMeetingType \<and>
   confirmBooking ex_db3 ex_now ''booking-2'' ex_confirmParams2 =
     (Inr (booking_fail ''NDA must be signed before booking''), ex_db3) \<and>
   confirmBooking ex_db4 ex_now ''booking-2'' ex_confirmParams2 =
     (Inr (booking_ok ex_booking2),
      ex_db0\<lparr>slotHolds := [ex_hold1\<lparr>sh_status := HoldConverted\<rparr>, ex_hold2\<lparr>sh_status := HoldConverted\<rparr>],
             bookings := [ex_booking1, ex_booking2],
             documents := [ex_document\<lparr>doc_bookingId := Some ''booking-2''\<rparr>]\<rparr>)"
proof -
  have k3: "\<forall>b \<in> set (bookings ex_db3). bk_idempotencyKey b \<noteq> cbp_idempotencyKey ex_confirmParams2"
    by (simp add: ex_db3_def ex_db2_def ex_db0_def ex_booking1_def ex_confirmParams2_def)
  have k4: "\<forall>b \<in> set (bookings ex_db4). bk_idempotencyKey b \<noteq> cbp_idempotencyKey ex_confirmParams2"
    by (simp add: ex_db4_def ex_db3_def ex_db2_def ex_db0_def ex_booking1_def ex_confirmParams2_def)
  have g3: "getHold ex_db3 (cbp_holdId ex_confirmParams2) = Some ex_hold2" by code_simp
  have g4: "getHold ex_db4 (cbp_holdId ex_confirmParams2) = Some ex_hold2" by code_simp
  have a: "sh_status ex_hold2 = HoldActive" "\<not> sh_expiresAt ex_hold2 < ex_now"
    by (simp_all add: ex_hold2_def ex_now_def)
  have m3: "first_row (filter (\<lambda>m. mt_id m = sh_meetingTypeId ex_hold2) (meetingTypes ex_db3)) = Some ex_ndaMeetingType"
    by code_simp
  have m4: "first_row (filter (\<lambda>m. mt_id m = sh_meetingTypeId ex_hold2) (meetingTypes ex_db4)) = Some ex_ndaMeetingType"
    by code_simp
  have n: "mt_requiresNda ex_ndaMeetingType" by (simp add: ex_ndaMeetingType_def)
  have nodoc: "\<not> (\<exists>x \<in> set (documents ex_db3). doc_holdId x = Some (cbp_holdId ex_confirmParams2) \<and> doc_status x = DocSigned)"
    by (simp add: ex_db3_def ex_db2_def ex_db0_def)
  have doc: "(\<exists>x \<in> set (documents ex_db4). doc_holdId x = Some (cbp_holdId ex_confirmParams2) \<and> doc_status x = DocSigned) \<and>
          sh_slotStart ex_hold2 \<le> sh_slotEnd ex_hold2 \<and> ''booking-2'' \<notin> set (map bk_id (bookings ex_db4)) \<and>
          \<not> violates_no_double_booking (bookings ex_db4)
               (booking_of_hold ''booking-2'' ex_hold2 ex_ndaMeetingType ex_confirmParams2)"
    by code_simp
  have st: "(Inr (booking_ok (booking_of_hold ''booking-2'' ex_hold2 ex_ndaMeetingType ex_confirmParams2)),
               ex_db4\<lparr>bookings := bookings ex_db4 @ [booking_of_hold ''booking-2'' ex_hold2 ex_ndaMeetingType ex_confirmParams2],
                 slotHolds := update_where (\<lambda>g. sh_id g = cbp_holdId ex_confirmParams2)
                                (\<lambda>g. g\<lparr>sh_status := HoldConverted\<rparr>) (slotHolds ex_db4),
                 documents := update_where (\<lambda>x. doc_holdId x = Some (cbp_holdId ex_confirmParams2))
                                (\<lambda>x. x\<lparr>doc_bookingId := Some ''booking-2''\<rparr>) (documents ex_db4)\<rparr>)
      = ((Inr (booking_ok ex_booking2),
      ex_db0\<lparr>slotHolds := [ex_hold1\<lparr>sh_status := HoldConverted\<rparr>, ex_hold2\<lparr>sh_status := HoldConverted\<rparr>],
             bookings := [ex_booking1, ex_booking2],
             documents := [ex_document\<lparr>doc_bookingId := Some ''booking-2''\<rparr>]\<rparr>) :: (db_error + booking_result) \<times> db)"
    by code_simp
  from confirmBooking_nda_gate[OF k3 g3 a m3 n, of "''booking-2''"] nodoc
  have r3: "confirmBooking ex_db3 ex_now ''booking-2'' ex_confirmParams2 =
     (Inr (booking_fail ''NDA must be signed before booking''), ex_db3)" by blast
  from confirmBooking_nda_gate[OF k4 g4 a m4 n, of "''booking-2''"] doc
  have r4: "confirmBooking ex_db4 ex_now ''booking-2'' ex_confirmParams2 =
     (Inr (booking_ok (booking_of_hold ''booking-2'' ex_hold2 ex_ndaMeetingType ex_confirmParams2)),
               ex_db4\<lparr>bookings := bookings ex_db4 @ [booking_of_hold ''booking-2'' ex_hold2 ex_ndaMeetingType ex_confirmParams2],
                 slotHolds := update_where (\<lambda>g. sh_id g = cbp_holdId ex_confirmParams2)
                                (\<lambda>g. g\<lparr>sh_status := HoldConverted\<rparr>) (slotHolds ex_db4),
                 documents := update_where (\<lambda>x. doc_holdId x = Some (cbp_holdId ex_confirmParams2))
                                (\<lambda>x. x\<lparr>doc_bookingId := Some ''booking-2''\<rparr>) (documents ex_db4)\<rparr>)" by blast
  from k3 g3 a m3 n r3 r4[unfolded st] show ?thesis by auto
qed

text \<open>
  The claim as stated fails when the key of the call is the key of a stored booking:
  the hold is active, not expired, of a meeting type that requires an NDA, and has no
  document, and the call succeeds with the stored booking.
\<close>

theorem confirmBooking_nda_replay_counterexample:
  "getHold ex_db3 ''hold-2'' = Some ex_hold2 \<and> sh_status ex_hold2 = HoldActive \<and>
   \<not> sh_expiresAt ex_hold2 < ex_now \<and>
   ex_ndaMeetingType \<in> set (meetingTypes ex_db3) \<and> mt_id ex_ndaMeetingType = sh_meetingTypeId ex_hold2 \<and>
   mt_requiresNda ex_ndaMeetingType \<and> documents ex_db3 = [] \<and>
   confirmBooking ex_db3 ex_now ''booking-2'' (ex_confirmParams\<lparr>cbp_holdId := ''hold-2''\<rparr>) =
     (Inr (booking_ok ex_booking1), ex_db3) \<and>
   br_success (booking_ok ex_booking1)"
  by code_simp

end
